theory Spec2Isabelle
  imports Complex_Main
begin

section \<open>Numbers, points and rotation helpers of pdf-bbox.js\<close>

text \<open>
  JavaScript numbers are modelled as exact reals (finite values, no rounding, no
  \<open>NaN\<close> or \<open>Infinity\<close>); page indexes and rotation angles, which are whole
  numbers of degrees, as \<open>int\<close>. A point \<open>[x, y]\<close> is a pair. A quotient by
  zero, which JavaScript evaluates to \<open>Infinity\<close> or \<open>NaN\<close>, has no counterpart
  here: the theorems about computed coordinates assume non-zero divisors.
\<close>

type_synonym point = "real \<times> real"

text \<open>
  A JavaScript string is a sequence of UTF-16 code units, here a list of numbers (every
  number that occurs is below \<open>2 ^ 16\<close>); \<open>js\<close> writes an ASCII literal as such a
  string. The texts that the code trims and concatenates (field values, extracted text)
  are of this type. Field and element ids, which the code only compares with each other
  and with ASCII constants, stay \<open>string\<close>.
\<close>

type_synonym jsstring = "nat list"

definition js :: "string \<Rightarrow> jsstring" where
  "js s = map of_char s"

text \<open>
  The failure that the specification names for the rotation helpers. The result type of
  the helpers has room for it, so that the question whether they fail can be asked.
\<close>

datatype error = UnsupportedRotation

text \<open>
  The \<open>%\<close> operator of JavaScript truncates towards zero: the result has the sign of
  the dividend.
\<close>

definition js_rem :: "int \<Rightarrow> int \<Rightarrow> int" where
  "js_rem a b = sgn a * (\<bar>a\<bar> mod \<bar>b\<bar>)"

text \<open>
  \<^verbatim>\<open>const rot = ((rotation || 0) % 360 + 360) % 360;\<close>
  (for an integer \<open>rotation\<close>, \<open>rotation || 0\<close> is \<open>rotation\<close>).
\<close>

definition rot_of :: "int \<Rightarrow> int" where
  "rot_of rotation = js_rem (js_rem rotation 360 + 360) 360"

text \<open>
  \<open>normalizeRotation\<close> and \<open>applyRotation\<close> (pdf-bbox.js, lines 37 to 53). Neither has
  a \<open>throw\<close>: every branch returns a point, so every equation below is an \<open>Inr\<close>.
\<close>

definition normalizeRotation :: "point \<Rightarrow> int \<Rightarrow> real \<Rightarrow> real \<Rightarrow> error + point" where
  "normalizeRotation pt rotation w h =
     (let rot = rot_of rotation; x = fst pt; y = snd pt in
      if rot = 90 then Inr (y, w - x)
      else if rot = 180 then Inr (w - x, h - y)
      else if rot = 270 then Inr (h - y, x)
      else Inr (x, y))"

definition applyRotation :: "point \<Rightarrow> int \<Rightarrow> real \<Rightarrow> real \<Rightarrow> error + point" where
  "applyRotation pt rotation w h =
     (let rot = rot_of rotation; x = fst pt; y = snd pt in
      if rot = 90 then Inr (w - y, x)
      else if rot = 180 then Inr (w - x, h - y)
      else if rot = 270 then Inr (y, h - x)
      else Inr (x, y))"

section \<open>The page-geometry collaborator\<close>

text \<open>
  The handlers of pdf-bbox.js read a page view of the viewer: its viewport (rendered
  size in pixels and the two point conversions), the page's own box \<open>pdfPage.view\<close>
  and the canvas with its on-screen size. The viewport is a parameter of the model: a
  record holding the two conversion functions the code calls.
\<close>

type_synonym box = "real \<times> real \<times> real \<times> real"
type_synonym matrix = "real \<times> real \<times> real \<times> real \<times> real \<times> real"

record viewport =
  vp_width :: real
  vp_height :: real
  convertToPdfPoint :: "real \<Rightarrow> real \<Rightarrow> point"
  convertToViewportPoint :: "real \<Rightarrow> real \<Rightarrow> point"

text \<open>
  Modelled from the spec: the page-geometry collaborator (the page viewport of the PDF.js
  viewer loaded in the iframe), which is not among the source files. The spec has it
  supply, per page, the rendered size and a conversion between page space (origin
  bottom-left, Y up) and render space (origin top-left, Y down, depending on zoom and
  rotation). The definitions follow the viewer's viewport: an affine transform built from
  the page box, the scale and the rotation, applied by \<open>convertToViewportPoint\<close> and
  inverted by \<open>convertToPdfPoint\<close>; a rotation that is not a multiple of 90 degrees has
  no viewport.
\<close>

definition applyTransform :: "point \<Rightarrow> matrix \<Rightarrow> point" where
  "applyTransform p m =
     (case m of (m0, m1, m2, m3, m4, m5) \<Rightarrow>
        (fst p * m0 + snd p * m2 + m4, fst p * m1 + snd p * m3 + m5))"

definition applyInverseTransform :: "point \<Rightarrow> matrix \<Rightarrow> point" where
  "applyInverseTransform p m =
     (case m of (m0, m1, m2, m3, m4, m5) \<Rightarrow>
        (let d = m0 * m3 - m1 * m2 in
         ((fst p * m3 - snd p * m2 + m2 * m5 - m4 * m3) / d,
          (- fst p * m1 + snd p * m0 + m4 * m1 - m5 * m0) / d)))"

definition rotate_coeffs :: "int \<Rightarrow> (real \<times> real \<times> real \<times> real) option" where
  "rotate_coeffs rot =
     (if rot = 180 then Some (- 1, 0, 0, 1)
      else if rot = 90 then Some (0, 1, 1, 0)
      else if rot = 270 then Some (0, - 1, - 1, 0)
      else if rot = 0 then Some (1, 0, 0, - 1)
      else None)"

definition viewport_of_matrix :: "real \<Rightarrow> real \<Rightarrow> matrix \<Rightarrow> viewport" where
  "viewport_of_matrix w h m =
     \<lparr> vp_width = w, vp_height = h,
       convertToPdfPoint = (\<lambda>x y. applyInverseTransform (x, y) m),
       convertToViewportPoint = (\<lambda>x y. applyTransform (x, y) m) \<rparr>"

definition PageViewport :: "box \<Rightarrow> real \<Rightarrow> int \<Rightarrow> viewport option" where
  "PageViewport viewBox scale rotation =
     (case viewBox of (b0, b1, b2, b3) \<Rightarrow>
      let centerX = (b2 + b0) / 2; centerY = (b3 + b1) / 2 in
      case rotate_coeffs (rotation mod 360) of
        None \<Rightarrow> None
      | Some (rotateA, rotateB, rotateC, rotateD) \<Rightarrow>
          let offsetCanvasX = (if rotateA = 0 then \<bar>centerY - b1\<bar> * scale
                               else \<bar>centerX - b0\<bar> * scale);
              offsetCanvasY = (if rotateA = 0 then \<bar>centerX - b0\<bar> * scale
                               else \<bar>centerY - b1\<bar> * scale);
              w = (if rotateA = 0 then (b3 - b1) * scale else (b2 - b0) * scale);
              h = (if rotateA = 0 then (b2 - b0) * scale else (b3 - b1) * scale)
          in Some (viewport_of_matrix w h
               (rotateA * scale, rotateB * scale, rotateC * scale, rotateD * scale,
                offsetCanvasX - rotateA * scale * centerX - rotateC * scale * centerY,
                offsetCanvasY - rotateB * scale * centerX - rotateD * scale * centerY)))"

record pageView =
  pv_viewport :: "viewport option"
  pdfPage_view :: "box option"
  canvas :: "(real \<times> real) option"

text \<open>
  \<open>pdfPage_view\<close> is \<open>pageView.pdfPage.view\<close> (absent while the page is not loaded),
  \<open>canvas\<close> the \<open>offsetWidth\<close> and \<open>offsetHeight\<close> of the canvas in the page's
  element (absent while the page has not been drawn). The viewer application
  \<open>PDFViewerApplication\<close> gives the current page number (from 1) and the page views.
\<close>

record app =
  app_page :: int
  getPageView :: "int \<Rightarrow> pageView option"

section \<open>State of pdf-bbox.js\<close>

record mark =
  schema :: string
  mark_id :: string
  field_id :: "string option"
  page :: int
  pdf_x1 :: real
  pdf_y1 :: real
  pdf_x2 :: real
  pdf_y2 :: real
  page_width :: real
  page_height :: real
  from_template :: "bool option"
  confidence :: "real option"

text \<open>
  A drawn mark has no \<open>from_template\<close> and no \<open>confidence\<close> property (\<open>None\<close>).
  \<open>mark_id\<close> is the \<open>id\<close> of the source; the fresh identifier (a random UUID) is an
  argument of the operations that create a mark.
\<close>

record coords =
  c_page :: int
  c_pdf_x1 :: real
  c_pdf_y1 :: real
  c_pdf_x2 :: real
  c_pdf_y2 :: real
  c_page_width :: real
  c_page_height :: real

record suggestion =
  sug_coords :: coords
  sug_confidence :: real
  sample_count :: int

record drag_rec =
  startX :: real
  startY :: real
  el :: "real \<times> real \<times> real \<times> real"

text \<open>\<open>el\<close> is the temporary rectangle: its \<open>left\<close>, \<open>top\<close>, \<open>width\<close>, \<open>height\<close>.\<close>

record bbox_rect =
  r_left :: real
  r_top :: real
  r_width :: real
  r_height :: real
  r_field_id :: "string option"
  r_active :: bool

datatype level = Info | Error

datatype notice =
    SelectFieldFirst
  | NoTemplateForField string
  | TemplateApplied int
  | ExtractFailed
  | ApplySuggestionFailed

record options =
  fix_hyphenation :: bool
  strip_prefix :: bool
  join_lines :: bool
  merge_by_field :: bool

record window_fns =
  processKeywords :: "(jsstring \<Rightarrow> jsstring) option"
  processAnnotation :: "(jsstring \<Rightarrow> string \<Rightarrow> jsstring) option"
  extractDOI :: "(jsstring \<Rightarrow> jsstring option) option"
  extractUDC :: "(jsstring \<Rightarrow> jsstring option) option"
  processFunding :: "(jsstring \<Rightarrow> string \<Rightarrow> jsstring) option"

text \<open>
  The state: the \<open>state\<close> object of the module (active field, active page, the
  selection store, the template suggestions, the ISSN), the \<open>drag\<close> variable of the
  overlay that receives the pointer events, and what the handlers touch outside the
  module: the viewer application, the notifications (\<open>window.toast\<close> when the page
  defines it, the console otherwise), the form fields by element id, the rectangles
  drawn on each page's overlay, the functions looked up on \<open>window\<close>, and the template
  samples sent to the server.
\<close>

record world =
  activeFieldId :: "string option"
  activePageIndex :: int
  selections :: "mark list"
  templateSuggestions :: "string \<rightharpoonup> suggestion"
  currentIssn :: "string option"
  drag :: "drag_rec option"
  pdf_app :: "app option"
  window_toast :: bool
  toasts :: "(notice \<times> level) list"
  console :: "(notice \<times> level) list"
  form_fields :: "string \<rightharpoonup> jsstring"
  rendered :: "int \<Rightarrow> bbox_rect list"
  window :: window_fns
  template_saves :: "(string \<times> coords) list"

definition notify :: "notice \<Rightarrow> level \<Rightarrow> world \<Rightarrow> world" where
  "notify message lvl w =
     (if window_toast w then w\<lparr>toasts := toasts w @ [(message, lvl)]\<rparr>
      else w\<lparr>console := console w @ [(message, lvl)]\<rparr>)"

section \<open>Applying extracted text (defaultApplyExtractedText)\<close>

text \<open>
  \<open>String.prototype.trim\<close> removes white space and line terminators at both ends:
  the code units U+0009 to U+000D, U+0020, U+00A0, U+1680, U+2000 to U+200A, U+2028,
  U+2029, U+202F, U+205F, U+3000 and U+FEFF (tab, line feed, vertical tab, form feed,
  carriage return, the line and paragraph separators, the byte order mark and the space
  separators of Unicode). All of them are single code units.
\<close>

definition is_ws :: "nat \<Rightarrow> bool" where
  "is_ws c =
     (c \<in> {0x09, 0x0A, 0x0B, 0x0C, 0x0D, 0x20, 0xA0, 0x1680, 0x2028, 0x2029, 0x202F,
            0x205F, 0x3000, 0xFEFF}
      \<or> (0x2000 \<le> c \<and> c \<le> 0x200A))"

definition js_trim :: "jsstring \<Rightarrow> jsstring" where
  "js_trim s = rev (dropWhile is_ws (rev (dropWhile is_ws s)))"

text \<open>A value is falsy when it is \<open>null\<close> or \<open>undefined\<close> (\<open>None\<close>) or the empty string.\<close>

definition truthy :: "'a list option \<Rightarrow> bool" where
  "truthy v = (case v of None \<Rightarrow> False | Some s \<Rightarrow> s \<noteq> [])"

text \<open>
  The first half of \<open>defaultApplyExtractedText\<close> (lines 85 to 113): the trimmed text,
  passed through the processor of the field's class when the page defines one.
\<close>

definition processed_value :: "window_fns \<Rightarrow> string \<Rightarrow> jsstring \<Rightarrow> jsstring" where
  "processed_value fns fieldId text =
     (let v = js_trim text in
      if fieldId = ''keywords'' \<or> fieldId = ''keywords_en'' then
        (case processKeywords fns of Some f \<Rightarrow> f v | None \<Rightarrow> v)
      else if fieldId = ''references_ru'' \<or> fieldId = ''references_en'' then v
      else if fieldId = ''annotation'' \<or> fieldId = ''annotation_en'' then
        (case processAnnotation fns of
           Some f \<Rightarrow> f v (if fieldId = ''annotation_en'' then ''en'' else ''ru'')
         | None \<Rightarrow> v)
      else if fieldId = ''doi'' then
        (case extractDOI fns of
           Some f \<Rightarrow> (let doi = f v in if truthy doi then the doi else v)
         | None \<Rightarrow> v)
      else if fieldId = ''udc'' then
        (case extractUDC fns of
           Some f \<Rightarrow> (let udc = f v in if truthy udc then the udc else v)
         | None \<Rightarrow> v)
      else if fieldId = ''funding'' \<or> fieldId = ''funding_en'' then
        (case processFunding fns of
           Some f \<Rightarrow> f v (if fieldId = ''funding_en'' then ''en'' else ''ru'')
         | None \<Rightarrow> v)
      else v)"

text \<open>The separator chosen at lines 118 to 123.\<close>

definition separator :: "string \<Rightarrow> jsstring" where
  "separator fieldId =
     (if fieldId = ''references_ru'' \<or> fieldId = ''references_en'' then [0x0A]
      else if fieldId = ''keywords'' \<or> fieldId = ''keywords_en'' then js '', ''
      else js '' '')"

text \<open>
  \<open>defaultApplyExtractedText(fieldId, text)\<close>: nothing happens for a falsy \<open>fieldId\<close>
  or \<open>text\<close>, or when no element has that id.
\<close>

definition defaultApplyExtractedText :: "string option \<Rightarrow> jsstring \<Rightarrow> world \<Rightarrow> world" where
  "defaultApplyExtractedText fieldId text w =
     (case fieldId of
        None \<Rightarrow> w
      | Some fid \<Rightarrow>
          if fid = [] \<or> text = [] then w
          else case form_fields w fid of
            None \<Rightarrow> w
          | Some field_value \<Rightarrow>
              let v = processed_value (window w) fid text in
              if js_trim field_value \<noteq> [] then
                w\<lparr>form_fields := (form_fields w)(fid \<mapsto> js_trim field_value @ separator fid @ v)\<rparr>
              else w\<lparr>form_fields := (form_fields w)(fid \<mapsto> v)\<rparr>)"

section \<open>Drawing marks (renderBboxes)\<close>

text \<open>
  Steps 3 and 4 of \<open>renderBboxes\<close> (lines 501 to 519) for one mark: the stored
  rectangle back to the screen. \<open>scale\<close> is \<open>canvas.offsetWidth / viewport.width\<close>.
\<close>

definition bboxRect :: "viewport \<Rightarrow> real \<Rightarrow> real \<Rightarrow> string option \<Rightarrow> mark \<Rightarrow> bbox_rect" where
  "bboxRect vp scale pdfHeight active s =
     (let pdf_y1_inverted = pdfHeight - pdf_y1 s;
          pdf_y2_inverted = pdfHeight - pdf_y2 s;
          p1 = convertToViewportPoint vp (pdf_x1 s) pdf_y1_inverted;
          p2 = convertToViewportPoint vp (pdf_x2 s) pdf_y2_inverted;
          screen_x1 = fst p1 * scale;
          screen_y1 = snd p1 * scale;
          screen_x2 = fst p2 * scale;
          screen_y2 = snd p2 * scale
      in \<lparr> r_left = min screen_x1 screen_x2,
           r_top = min screen_y1 screen_y2,
           r_width = \<bar>screen_x2 - screen_x1\<bar>,
           r_height = \<bar>screen_y2 - screen_y1\<bar>,
           r_field_id = field_id s,
           r_active = (field_id s = active) \<rparr>)"

datatype completion = Normal | Threw

text \<open>
  \<open>renderBboxes(app)\<close>. It sets the active page, gives up silently when the page view,
  its canvas or its page is missing, and otherwise replaces the rectangles of the
  current page's overlay by one rectangle per mark of that page. Reading
  \<open>viewport.width\<close> of a missing viewport throws. Colours and labels are not modelled.
\<close>

definition renderBboxes :: "app option \<Rightarrow> world \<Rightarrow> world \<times> completion" where
  "renderBboxes ap w =
     (case ap of
        None \<Rightarrow> (w, Normal)
      | Some a \<Rightarrow>
          let pageIdx = app_page a - 1;
              w1 = w\<lparr>activePageIndex := pageIdx\<rparr>
          in case getPageView a pageIdx of
               None \<Rightarrow> (w1, Normal)
             | Some pv \<Rightarrow>
                 (case canvas pv of
                    None \<Rightarrow> (w1, Normal)
                  | Some cv \<Rightarrow>
                      let w2 = w1\<lparr>rendered := (rendered w1)(pageIdx := [])\<rparr> in
                      (case pdfPage_view pv of
                         None \<Rightarrow> (w2, Normal)
                       | Some (r0, r1, r2, r3) \<Rightarrow>
                           (case pv_viewport pv of
                              None \<Rightarrow> (w2, Threw)
                            | Some vp \<Rightarrow>
                                let pdfHeight = r3 - r1;
                                    scale = fst cv / vp_width vp;
                                    rects = map (bboxRect vp scale pdfHeight (activeFieldId w2))
                                              (filter (\<lambda>s. page s = pageIdx) (selections w2))
                                in (w2\<lparr>rendered := (rendered w2)(pageIdx := rects)\<rparr>, Normal)))))"

section \<open>Pointer handlers of the overlay (ensureOverlay)\<close>

record mouse_event =
  button :: int
  clientX :: real
  clientY :: real

text \<open>
  The overlay of one page: its page index (\<open>dataset.pageIndex\<close>) and the left and top
  of its bounding rectangle when the event arrives.
\<close>

record overlay =
  pageIndex :: int
  rect_left :: real
  rect_top :: real

definition getOverlayPoint :: "overlay \<Rightarrow> mouse_event \<Rightarrow> point" where
  "getOverlayPoint ov e = (clientX e - rect_left ov, clientY e - rect_top ov)"

definition mousedown :: "overlay \<Rightarrow> mouse_event \<Rightarrow> world \<Rightarrow> world" where
  "mousedown ov e w =
     (if button e \<noteq> 0 then w
      else if \<not> truthy (activeFieldId w) then notify SelectFieldFirst Info w
      else let pt = getOverlayPoint ov e in
        w\<lparr>drag := Some \<lparr> startX = fst pt, startY = snd pt, el = (fst pt, snd pt, 0, 0) \<rparr>\<rparr>)"

definition mousemove :: "overlay \<Rightarrow> mouse_event \<Rightarrow> world \<Rightarrow> world" where
  "mousemove ov e w =
     (case drag w of
        None \<Rightarrow> w
      | Some d \<Rightarrow>
          let pt = getOverlayPoint ov e;
              left = min (startX d) (fst pt);
              top' = min (startY d) (snd pt);
              width = \<bar>fst pt - startX d\<bar>;
              height = \<bar>snd pt - startY d\<bar>
          in w\<lparr>drag := Some (d\<lparr>el := (left, top', width, height)\<rparr>)\<rparr>)"

text \<open>
  Steps 3 to 6 of the \<open>mouseup\<close> handler (lines 347 to 372): the screen rectangle
  \<open>(left, top, width, height)\<close> to the stored rectangle \<open>(x1, y1, x2, y2)\<close>.
\<close>

definition normalized :: "viewport \<Rightarrow> real \<Rightarrow> real \<Rightarrow> real \<times> real \<times> real \<times> real \<Rightarrow> box" where
  "normalized vp canvasWidth pdfHeight r =
     (case r of (left, top', width, height) \<Rightarrow>
        let scale = vp_width vp / canvasWidth;
            vp_x1 = left * scale;
            vp_y1 = top' * scale;
            vp_x2 = (left + width) * scale;
            vp_y2 = (top' + height) * scale;
            p1 = convertToPdfPoint vp vp_x1 vp_y1;
            p2 = convertToPdfPoint vp vp_x2 vp_y2
        in (min (fst p1) (fst p2),
            min (pdfHeight - snd p1) (pdfHeight - snd p2),
            max (fst p1) (fst p2),
            max (pdfHeight - snd p1) (pdfHeight - snd p2)))"

text \<open>Step 7 (lines 377 to 389): the mark that is stored.\<close>

definition selection_of :: "string \<Rightarrow> string option \<Rightarrow> int \<Rightarrow> box \<Rightarrow> real \<Rightarrow> real \<Rightarrow> mark" where
  "selection_of new_id fid pg n pdfWidth pdfHeight =
     \<lparr> schema = ''pdfbbox-v2'', mark_id = new_id, field_id = fid, page = pg,
       pdf_x1 = fst n, pdf_y1 = fst (snd n),
       pdf_x2 = fst (snd (snd n)), pdf_y2 = snd (snd (snd n)),
       page_width = pdfWidth, page_height = pdfHeight,
       from_template = None, confidence = None \<rparr>"

definition options_for :: "string option \<Rightarrow> options" where
  "options_for fid =
     (if fid = Some ''references_ru'' \<or> fid = Some ''references_en'' then
        \<lparr> fix_hyphenation = True, strip_prefix = False, join_lines = False, merge_by_field = False \<rparr>
      else
        \<lparr> fix_hyphenation = True, strip_prefix = True, join_lines = True, merge_by_field = False \<rparr>)"

text \<open>The body of the extraction request: the one selection and the options.\<close>

record extract_request =
  req_selection :: mark
  req_options :: options

text \<open>
  The \<open>mouseup\<close> handler up to its \<open>await fetch\<close>. The result is the state at that
  point and the request then sent; \<open>None\<close> when the handler returned, or threw, before
  sending one. \<open>new_id\<close> is the fresh identifier.
\<close>

definition mouseup :: "string \<Rightarrow> overlay \<Rightarrow> mouse_event \<Rightarrow> world \<Rightarrow> world \<times> extract_request option" where
  "mouseup new_id ov e w =
     (case drag w of
        None \<Rightarrow> (w, None)
      | Some d \<Rightarrow>
          let pt = getOverlayPoint ov e;
              left = min (startX d) (fst pt);
              top' = min (startY d) (snd pt);
              width = \<bar>fst pt - startX d\<bar>;
              height = \<bar>snd pt - startY d\<bar>;
              w0 = w\<lparr>drag := None\<rparr>
          in if width < 4 \<or> height < 4 then (w0, None)
             else case (case pdf_app w0 of None \<Rightarrow> None | Some a \<Rightarrow> getPageView a (pageIndex ov)) of
               None \<Rightarrow> (w0, None)
             | Some pv \<Rightarrow>
                 (case (pv_viewport pv, pdfPage_view pv) of
                    (Some vp, Some (r0, r1, r2, r3)) \<Rightarrow>
                      (case canvas pv of
                         None \<Rightarrow> (w0, None)
                       | Some cv \<Rightarrow>
                           let pdfWidth = r2 - r0;
                               pdfHeight = r3 - r1;
                               n = normalized vp (fst cv) pdfHeight (left, top', width, height);
                               selection = selection_of new_id (activeFieldId w0) (pageIndex ov)
                                             n pdfWidth pdfHeight;
                               w1 = w0\<lparr>selections := selections w0 @ [selection]\<rparr>;
                               rw = renderBboxes (pdf_app w1) w1
                           in if snd rw = Threw then (fst rw, None)
                              else (fst rw, Some \<lparr> req_selection = selection,
                                                   req_options = options_for (field_id selection) \<rparr>))
                  | _ \<Rightarrow> (w0, None)))"

text \<open>
  What the extraction request comes back with: the \<open>fetch\<close> (or reading its body)
  failed, or a body arrived, with the text of its first extracted entry when it has one.
\<close>

datatype response = FetchFailed | Responded "jsstring option"

text \<open>
  \<open>saveToTemplate(fieldId, coords)\<close> up to its own request: the sample is sent when an
  ISSN is set and the field id is truthy. Its answer, which reloads the suggestions, is a
  later event.
\<close>

definition saveToTemplate :: "string option \<Rightarrow> coords \<Rightarrow> world \<Rightarrow> world" where
  "saveToTemplate fieldId cs w =
     (if \<not> truthy (currentIssn w) \<or> \<not> truthy fieldId then w
      else w\<lparr>template_saves := template_saves w @ [(the fieldId, cs)]\<rparr>)"

definition coords_of :: "mark \<Rightarrow> coords" where
  "coords_of s =
     \<lparr> c_page = page s, c_pdf_x1 = pdf_x1 s, c_pdf_y1 = pdf_y1 s, c_pdf_x2 = pdf_x2 s,
       c_pdf_y2 = pdf_y2 s, c_page_width = page_width s, c_page_height = page_height s \<rparr>"

text \<open>The rest of the \<open>mouseup\<close> handler, run when the request settles (lines 427 to 452).\<close>

definition mouseup_settled :: "extract_request \<Rightarrow> response \<Rightarrow> world \<Rightarrow> world" where
  "mouseup_settled rq resp w =
     (case resp of
        FetchFailed \<Rightarrow> w\<lparr>console := console w @ [(ExtractFailed, Error)]\<rparr>
      | Responded extracted \<Rightarrow>
          if truthy extracted then
            (let w1 = defaultApplyExtractedText (field_id (req_selection rq)) (the extracted) w in
             if truthy (currentIssn w1)
             then saveToTemplate (field_id (req_selection rq)) (coords_of (req_selection rq)) w1
             else w1)
          else w)"

text \<open>
  The whole handler, with the request settling as \<open>resp\<close>.
\<close>

definition mouseup_run :: "string \<Rightarrow> overlay \<Rightarrow> mouse_event \<Rightarrow> response \<Rightarrow> world \<Rightarrow> world" where
  "mouseup_run new_id ov e resp w =
     (case mouseup new_id ov e w of
        (w1, None) \<Rightarrow> w1
      | (w1, Some rq) \<Rightarrow> mouseup_settled rq resp w1)"

section \<open>Template suggestions (applySuggestion)\<close>

text \<open>
  \<open>applySuggestion(fieldId)\<close> up to its \<open>await fetch\<close> (lines 713 to 771): the state
  and the request sent, if any.
\<close>

definition applySuggestion :: "string \<Rightarrow> string \<Rightarrow> world \<Rightarrow> world \<times> extract_request option" where
  "applySuggestion new_id fieldId w =
     (case templateSuggestions w fieldId of
        None \<Rightarrow> (notify (NoTemplateForField fieldId) Error w, None)
      | Some sg \<Rightarrow>
          (case pdf_app w of
             None \<Rightarrow> (w, None)
           | Some a \<Rightarrow>
               let cs = sug_coords sg;
                   selection =
                     \<lparr> schema = ''pdfbbox-v2'', mark_id = new_id, field_id = Some fieldId,
                       page = c_page cs,
                       pdf_x1 = c_pdf_x1 cs, pdf_y1 = c_pdf_y1 cs,
                       pdf_x2 = c_pdf_x2 cs, pdf_y2 = c_pdf_y2 cs,
                       page_width = c_page_width cs, page_height = c_page_height cs,
                       from_template = Some True, confidence = Some (sug_confidence sg) \<rparr>;
                   w1 = w\<lparr>selections :=
                           filter (\<lambda>s. field_id s \<noteq> Some fieldId) (selections w) @ [selection]\<rparr>;
                   rw = renderBboxes (Some a) w1
               in if snd rw = Threw then (fst rw, None)
                  else (fst rw, Some \<lparr> req_selection = selection,
                                       req_options = options_for (Some fieldId) \<rparr>)))"

text \<open>
  The rest of \<open>applySuggestion\<close> (lines 774 to 787), run when the request settles.
  \<open>Math.round(x)\<close> is \<open>\<lfloor>x + 1/2\<rfloor>\<close>.
\<close>

definition applySuggestion_settled :: "string \<Rightarrow> real \<Rightarrow> response \<Rightarrow> world \<Rightarrow> world" where
  "applySuggestion_settled fieldId conf resp w =
     (case resp of
        FetchFailed \<Rightarrow> w\<lparr>console := console w @ [(ApplySuggestionFailed, Error)]\<rparr>
      | Responded extracted \<Rightarrow>
          if truthy extracted then
            notify (TemplateApplied \<lfloor>conf * 100 + 1 / 2\<rfloor>) Info
              (defaultApplyExtractedText (Some fieldId) (the extracted) w)
          else w)"

definition applySuggestion_run :: "string \<Rightarrow> string \<Rightarrow> response \<Rightarrow> world \<Rightarrow> world" where
  "applySuggestion_run new_id fieldId resp w =
     (case applySuggestion new_id fieldId w of
        (w1, None) \<Rightarrow> w1
      | (w1, Some rq) \<Rightarrow>
          applySuggestion_settled fieldId (the (confidence (req_selection rq))) resp w1)"

section \<open>The stand-alone selector (initSelectionHandlers)\<close>

text \<open>
  The older selection page, first module of the unnamed source file. Its page view holds
  the page box \<open>page.view\<close>, the viewport's width and height and the canvas: the canvas's
  own \<open>width\<close> and \<open>height\<close>, and the left and top of its bounding rectangle.
\<close>

record selector_canvas =
  cv_width :: real
  cv_height :: real
  cv_left :: real
  cv_top :: real

record selector_pageView =
  spv_pageSize :: box
  spv_viewport_width :: real
  spv_viewport_height :: real
  spv_canvas :: "selector_canvas option"

record selector_selection =
  s_page :: int
  screen_x1 :: real
  screen_y1 :: real
  screen_x2 :: real
  screen_y2 :: real
  s_pdf_x1 :: real
  s_pdf_y1 :: real
  s_pdf_x2 :: real
  s_pdf_y2 :: real
  s_field_id :: "string option"
  s_text :: string

datatype selector_error = ChooseBlockFirst

record selector =
  currentPage :: int
  s_selections :: "selector_selection list"
  currentPageView :: "selector_pageView option"
  isDragging :: bool
  dragStart :: "point option"
  dragRect :: "(real \<times> real \<times> real \<times> real) option"
  s_activeFieldId :: "string option"
  shown_error :: "selector_error option"

record selector_event =
  s_clientX :: real
  s_clientY :: real
  target_in_page :: bool

definition clampValue :: "real \<Rightarrow> real \<Rightarrow> real \<Rightarrow> real" where
  "clampValue v lo hi = max lo (min hi v)"

definition getCanvasCoords :: "selector_event \<Rightarrow> selector_canvas \<Rightarrow> point" where
  "getCanvasCoords ev cv =
     (clampValue (s_clientX ev - cv_left cv) 0 (cv_width cv),
      clampValue (s_clientY ev - cv_top cv) 0 (cv_height cv))"

text \<open>The \<open>mousedown\<close> listener (lines 472 to 492): no check of the active field.\<close>

definition selector_mousedown :: "selector_event \<Rightarrow> selector \<Rightarrow> selector" where
  "selector_mousedown ev st =
     (case currentPageView st of
        None \<Rightarrow> st
      | Some pv \<Rightarrow>
          (case spv_canvas pv of
             None \<Rightarrow> st
           | Some cv \<Rightarrow>
               if \<not> target_in_page ev then st
               else let cs = getCanvasCoords ev cv in
                 st\<lparr>dragStart := Some cs, isDragging := True,
                    dragRect := Some (fst cs, snd cs, 0, 0)\<rparr>))"

text \<open>
  The \<open>mouseup\<close> listener (lines 509 to 562). Refreshing the list and the overlays of
  the page afterwards changes no part of this state.
\<close>

definition selector_mouseup :: "selector_event \<Rightarrow> selector \<Rightarrow> selector" where
  "selector_mouseup ev st =
     (case (isDragging st, dragStart st, currentPageView st) of
        (True, Some ds, Some pv) \<Rightarrow>
          (case spv_canvas pv of
             None \<Rightarrow> st
           | Some cv \<Rightarrow>
               let cs = getCanvasCoords ev cv;
                   x1 = min (fst ds) (fst cs);
                   y1 = min (snd ds) (snd cs);
                   x2 = max (fst ds) (fst cs);
                   y2 = max (snd ds) (snd cs);
                   st0 = st\<lparr>isDragging := False, dragStart := None, dragRect := None\<rparr>
               in if \<bar>x2 - x1\<bar> < 8 \<or> \<bar>y2 - y1\<bar> < 8 then st0
                  else case spv_pageSize pv of (ps0, ps1, ps2, ps3) \<Rightarrow>
                    let px1 = (x1 / spv_viewport_width pv) * ps2;
                        px2 = (x2 / spv_viewport_width pv) * ps2;
                        py1 = ps3 - (y2 / spv_viewport_height pv) * ps3;
                        py2 = ps3 - (y1 / spv_viewport_height pv) * ps3
                    in if \<not> truthy (s_activeFieldId st0)
                       then st0\<lparr>shown_error := Some ChooseBlockFirst\<rparr>
                       else st0\<lparr>s_selections := s_selections st0 @
                              [\<lparr> s_page = currentPage st0,
                                 screen_x1 = x1, screen_y1 = y1, screen_x2 = x2, screen_y2 = y2,
                                 s_pdf_x1 = min px1 px2, s_pdf_y1 = py1,
                                 s_pdf_x2 = max px1 px2, s_pdf_y2 = py2,
                                 s_field_id = s_activeFieldId st0, s_text = [] \<rparr>]\<rparr>)
      | _ \<Rightarrow> st)"

section \<open>Well-formed surroundings\<close>

text \<open>
  The page under an overlay is ready when the viewer has its page view with a viewport,
  the loaded page and a canvas of non-zero width (the guards of the \<open>mouseup\<close> handler,
  and the divisor of its scale).
\<close>

definition page_ready :: "world \<Rightarrow> overlay \<Rightarrow> bool" where
  "page_ready w ov =
     (case pdf_app w of
        None \<Rightarrow> False
      | Some a \<Rightarrow>
          (case getPageView a (pageIndex ov) of
             None \<Rightarrow> False
           | Some pv \<Rightarrow>
               pv_viewport pv \<noteq> None \<and> pdfPage_view pv \<noteq> None
               \<and> (case canvas pv of None \<Rightarrow> False | Some cv \<Rightarrow> fst cv \<noteq> 0)))"

text \<open>
  The selector has a page when its page view has a canvas, a viewport of positive width
  and height and a page box whose height entry is not negative.
\<close>

definition selector_ready :: "selector \<Rightarrow> bool" where
  "selector_ready st =
     (case currentPageView st of
        None \<Rightarrow> False
      | Some pv \<Rightarrow>
          spv_canvas pv \<noteq> None \<and> 0 < spv_viewport_width pv \<and> 0 < spv_viewport_height pv
          \<and> 0 \<le> snd (snd (snd (spv_pageSize pv))))"

section \<open>The scenario of the specification\<close>

text \<open>
  A page of 595 by 842 points shown at scale 2 and rotation 0 on a canvas of 1190 by 1684
  pixels, as the first page of the viewer; the field \<open>title\<close> is active and nothing is
  selected yet. The same page in the stand-alone selector.
\<close>

definition scenario_pageView :: pageView where
  "scenario_pageView =
     \<lparr> pv_viewport = PageViewport (0, 0, 595, 842) 2 0,
       pdfPage_view = Some (0, 0, 595, 842),
       canvas = Some (1190, 1684) \<rparr>"

definition scenario_app :: app where
  "scenario_app =
     \<lparr> app_page = 1,
       getPageView = (\<lambda>i. if i = 0 then Some scenario_pageView else None) \<rparr>"

definition scenario_world :: world where
  "scenario_world =
     \<lparr> activeFieldId = Some ''title'', activePageIndex = 0, selections = [],
       templateSuggestions = Map.empty, currentIssn = None, drag = None,
       pdf_app = Some scenario_app, window_toast = True, toasts = [], console = [],
       form_fields = [''title'' \<mapsto> []], rendered = (\<lambda>_. []),
       window = \<lparr> processKeywords = None, processAnnotation = None, extractDOI = None,
                  extractUDC = None, processFunding = None \<rparr>,
       template_saves = [] \<rparr>"

definition scenario_overlay :: overlay where
  "scenario_overlay = \<lparr> pageIndex = 0, rect_left = 0, rect_top = 0 \<rparr>"

definition pointer_at :: "real \<Rightarrow> real \<Rightarrow> mouse_event" where
  "pointer_at x y = \<lparr> button = 0, clientX = x, clientY = y \<rparr>"

definition scenario_canvas :: selector_canvas where
  "scenario_canvas = \<lparr> cv_width = 1190, cv_height = 1684, cv_left = 0, cv_top = 0 \<rparr>"

definition scenario_selector :: selector where
  "scenario_selector =
     \<lparr> currentPage = 0, s_selections = [],
       currentPageView = Some
         \<lparr> spv_pageSize = (0, 0, 595, 842),
           spv_viewport_width = 1190, spv_viewport_height = 1684,
           spv_canvas = Some scenario_canvas \<rparr>,
       isDragging = False, dragStart = None, dragRect = None,
       s_activeFieldId = Some ''title'', shown_error = None \<rparr>"

text \<open>The scenario after the pointer went down at (100, 100).\<close>

definition scenario_dragging :: world where
  "scenario_dragging = mousedown scenario_overlay (pointer_at 100 100) scenario_world"

definition selector_at :: "real \<Rightarrow> real \<Rightarrow> selector_event" where
  "selector_at x y = \<lparr> s_clientX = x, s_clientY = y, target_in_page = True \<rparr>"

definition scenario_selector_dragging :: selector where
  "scenario_selector_dragging = selector_mousedown (selector_at 100 100) scenario_selector"

text \<open>The same two states with no field active.\<close>

definition scenario_no_field :: world where
  "scenario_no_field = scenario_world\<lparr>activeFieldId := None\<rparr>"

definition scenario_selector_no_field :: selector where
  "scenario_selector_no_field = scenario_selector\<lparr>s_activeFieldId := None\<rparr>"

text \<open>
  The scenario with two hand-drawn marks, for \<open>title\<close> and for \<open>doi\<close>, and a template
  suggestion for \<open>title\<close>.
\<close>

definition scenario_suggestion :: suggestion where
  "scenario_suggestion =
     \<lparr> sug_coords = \<lparr> c_page = 0, c_pdf_x1 = 50, c_pdf_y1 = 50, c_pdf_x2 = 150, c_pdf_y2 = 75,
                       c_page_width = 595, c_page_height = 842 \<rparr>,
       sug_confidence = 4 / 5, sample_count = 3 \<rparr>"

definition scenario_with_template :: world where
  "scenario_with_template =
     scenario_world
       \<lparr> selections := [selection_of ''a'' (Some ''title'') 0 (10, 10, 20, 20) 595 842,
                        selection_of ''b'' (Some ''doi'') 0 (30, 30, 40, 40) 595 842],
         templateSuggestions := [''title'' \<mapsto> scenario_suggestion] \<rparr>"






text \<open>The same state while the viewer application is not there.\<close>

definition scenario_no_viewer :: world where
  "scenario_no_viewer = scenario_with_template\<lparr>pdf_app := None\<rparr>"

text \<open>
  The scenario with some fields filled in; the field \<open>udc\<close> holds a no-break space and
  a line separator.
\<close>

definition scenario_filled :: world where
  "scenario_filled =
     scenario_world
       \<lparr> form_fields := [''keywords'' \<mapsto> js ''alpha '', ''references_ru'' \<mapsto> js ''alpha'',
                         ''doi'' \<mapsto> js ''alpha'', ''title'' \<mapsto> js '' '',
                         ''udc'' \<mapsto> [0xA0, 0x2028]] \<rparr>"

section \<open>Rotation\<close>

lemma js_rem_360_bounds: "- 360 < js_rem a 360 \<and> js_rem a 360 < 360"
proof -
  have "0 \<le> \<bar>a\<bar> mod 360" "\<bar>a\<bar> mod 360 < 360" by simp_all
  then show ?thesis
    by (cases "a < 0"; cases "a = 0") (simp_all add: js_rem_def)
qed

lemma js_rem_nonneg: "0 \<le> a \<Longrightarrow> js_rem a 360 = a mod 360"
  by (cases "a = 0") (simp_all add: js_rem_def)

lemma js_rem_cong_360: "(js_rem a 360) mod 360 = a mod 360"
proof (cases "a < 0")
  case True
  then have "js_rem a 360 = - ((- a) mod 360)" by (simp add: js_rem_def)
  then show ?thesis by (simp add: mod_minus_eq)
next
  case False
  then show ?thesis by (simp add: js_rem_nonneg)
qed

lemma rot_of_mod: "rot_of r = r mod 360"
proof -
  have b: "0 \<le> js_rem r 360 + 360" using js_rem_360_bounds [of r] by simp
  have "rot_of r = (js_rem r 360 + 360) mod 360"
    unfolding rot_of_def using b by (rule js_rem_nonneg)
  also have "\<dots> = (js_rem r 360) mod 360" by simp
  also have "\<dots> = r mod 360" by (rule js_rem_cong_360)
  finally show ?thesis .
qed

text \<open>
  C6 (as the code has it). The rotation is reduced modulo 360 before it is used, into
  \<open>0 \<le> rot < 360\<close>. No rotation makes either helper fail: both return a point for
  every input, and a reduced rotation other than 90, 180 and 270 (so every one that is
  not a multiple of 90 degrees) returns the point unchanged, as rotation 0 does.
\<close>

theorem rotation_reduced_and_never_fails:
  "rot_of r = r mod 360 \<and> 0 \<le> rot_of r \<and> rot_of r < 360
   \<and> (\<exists>q. normalizeRotation p r w h = Inr q)
   \<and> (\<exists>q. applyRotation p r w h = Inr q)
   \<and> (r mod 360 \<notin> {90, 180, 270} \<longrightarrow>
        normalizeRotation p r w h = Inr p \<and> applyRotation p r w h = Inr p)"
  by (simp add: rot_of_mod normalizeRotation_def applyRotation_def Let_def)

theorem rotation_reduced_and_never_fails_witness:
  "(45::int) mod 360 \<notin> {90, 180, 270}
   \<and> rot_of 45 = 45
   \<and> normalizeRotation (1, 2) 45 10 20 = Inr (1, 2)
   \<and> applyRotation (1, 2) 45 10 20 = Inr (1, 2)"
  using rotation_reduced_and_never_fails [of 45 "(1, 2)" 10 20] by simp

text \<open>
  C6 as stated fails: 45 degrees is not a multiple of 90, and the call returns the point
  instead of failing with \<open>UnsupportedRotation\<close>.
\<close>

theorem unsupported_rotation_counterexample:
  "(45::int) mod 360 mod 90 \<noteq> 0
   \<and> normalizeRotation (1, 2) 45 10 20 \<noteq> Inl UnsupportedRotation
   \<and> applyRotation (1, 2) 45 10 20 \<noteq> Inl UnsupportedRotation"
  by (simp add: normalizeRotation_def applyRotation_def rot_of_mod Let_def)

section \<open>Round trip of a drawn rectangle\<close>

lemma inv_straight:
  fixes a d e f x y :: real
  assumes "a \<noteq> 0" "d \<noteq> 0"
  shows "applyInverseTransform (x, y) (a, 0, 0, d, e, f) = ((x - e) / a, (y - f) / d)"
  using assms by (simp add: applyInverseTransform_def Let_def field_simps)

lemma fwd_straight:
  "applyTransform (x, y) (a, 0, 0, d, e, f) = (a * x + e, d * y + f)"
  by (simp add: applyTransform_def mult.commute)

lemma inv_swapped:
  fixes b c e f x y :: real
  assumes "b \<noteq> 0" "c \<noteq> 0"
  shows "applyInverseTransform (x, y) (0, b, c, 0, e, f) = ((y - f) / b, (x - e) / c)"
  using assms by (simp add: applyInverseTransform_def Let_def field_simps)

lemma fwd_swapped:
  "applyTransform (x, y) (0, b, c, 0, e, f) = (c * y + e, b * x + f)"
  by (simp add: applyTransform_def mult.commute)

lemma PageViewport_0:
  "rot mod 360 = 0 \<Longrightarrow> PageViewport (b0, b1, b2, b3) s rot =
     Some (viewport_of_matrix ((b2 - b0) * s) ((b3 - b1) * s)
       (s, 0, 0, - s, \<bar>(b2 + b0) / 2 - b0\<bar> * s - s * ((b2 + b0) / 2),
        \<bar>(b3 + b1) / 2 - b1\<bar> * s + s * ((b3 + b1) / 2)))"
  by (simp add: PageViewport_def rotate_coeffs_def Let_def)

lemma PageViewport_180:
  "rot mod 360 = 180 \<Longrightarrow> PageViewport (b0, b1, b2, b3) s rot =
     Some (viewport_of_matrix ((b2 - b0) * s) ((b3 - b1) * s)
       (- s, 0, 0, s, \<bar>(b2 + b0) / 2 - b0\<bar> * s + s * ((b2 + b0) / 2),
        \<bar>(b3 + b1) / 2 - b1\<bar> * s - s * ((b3 + b1) / 2)))"
  by (simp add: PageViewport_def rotate_coeffs_def Let_def)

lemma PageViewport_90:
  "rot mod 360 = 90 \<Longrightarrow> PageViewport (b0, b1, b2, b3) s rot =
     Some (viewport_of_matrix ((b3 - b1) * s) ((b2 - b0) * s)
       (0, s, s, 0, \<bar>(b3 + b1) / 2 - b1\<bar> * s - s * ((b3 + b1) / 2),
        \<bar>(b2 + b0) / 2 - b0\<bar> * s - s * ((b2 + b0) / 2)))"
  by (simp add: PageViewport_def rotate_coeffs_def Let_def)

lemma PageViewport_270:
  "rot mod 360 = 270 \<Longrightarrow> PageViewport (b0, b1, b2, b3) s rot =
     Some (viewport_of_matrix ((b3 - b1) * s) ((b2 - b0) * s)
       (0, - s, - s, 0, \<bar>(b3 + b1) / 2 - b1\<bar> * s + s * ((b3 + b1) / 2),
        \<bar>(b2 + b0) / 2 - b0\<bar> * s + s * ((b2 + b0) / 2)))"
  by (simp add: PageViewport_def rotate_coeffs_def Let_def)

text \<open>
  Undoing \<open>u \<mapsto> (u - e) / a\<close> on the smaller and the larger of two images gives the two
  originals back, in one order or the other.
\<close>

lemma unflip:
  fixes a e u v :: real
  assumes "a \<noteq> 0"
  defines "p \<equiv> a * min ((u - e) / a) ((v - e) / a) + e"
      and "q \<equiv> a * max ((u - e) / a) ((v - e) / a) + e"
  shows "(p = u \<and> q = v) \<or> (p = v \<and> q = u)"
proof (cases "(u - e) / a \<le> (v - e) / a")
  case True
  then have "p = u" "q = v" using assms by (simp_all add: p_def q_def min_def max_def)
  then show ?thesis by simp
next
  case False
  then have "p = v" "q = u" using assms by (simp_all add: p_def q_def min_def max_def)
  then show ?thesis by simp
qed

lemma rescale_pair:
  fixes k l w p q :: real
  assumes "0 < k" "0 \<le> w"
      and "(p = l * k \<and> q = (l + w) * k) \<or> (p = (l + w) * k \<and> q = l * k)"
  shows "min (p * (1 / k)) (q * (1 / k)) = l \<and> \<bar>q * (1 / k) - p * (1 / k)\<bar> = w"
proof -
  have a: "l * k * (1 / k) = l" "(l + w) * k * (1 / k) = l + w"
    using \<open>0 < k\<close> by simp_all
  from assms(3) show ?thesis
  proof (elim disjE conjE)
    assume "p = l * k" "q = (l + w) * k"
    then show ?thesis using a \<open>0 \<le> w\<close> by (simp only: a) simp
  next
    assume "p = (l + w) * k" "q = l * k"
    then show ?thesis using a \<open>0 \<le> w\<close> by (simp only: a) simp
  qed
qed

lemma flip_min: "(H::real) - min (H - a) (H - b) = max a b"
  and flip_max: "(H::real) - max (H - a) (H - b) = min a b"
  by (simp_all add: min_def max_def)

lemma roundtrip_straight:
  fixes a d e f vw vh cw l t w h H :: real
  assumes nz: "a \<noteq> 0" "d \<noteq> 0" and pos: "0 < vw" "0 < cw" "0 \<le> w" "0 \<le> h"
  defines "vp \<equiv> viewport_of_matrix vw vh (a, 0, 0, d, e, f)"
  defines "n \<equiv> normalized vp cw H (l, t, w, h)"
  shows "bboxRect vp (cw / vw) H act (selection_of i fd pg n pw ph)
       = \<lparr> r_left = l, r_top = t, r_width = w, r_height = h, r_field_id = fd, r_active = (fd = act) \<rparr>"
proof -
  define k where "k = vw / cw"
  have k: "0 < k" and ik: "cw / vw = 1 / k" using pos by (simp_all add: k_def)
  have toPdf: "\<And>x y. convertToPdfPoint vp x y = ((x - e) / a, (y - f) / d)"
    using nz by (simp add: vp_def viewport_of_matrix_def inv_straight)
  have toVp: "\<And>x y. convertToViewportPoint vp x y = (a * x + e, d * y + f)"
    by (simp add: vp_def viewport_of_matrix_def fwd_straight)
  have vw: "vp_width vp = vw" by (simp add: vp_def viewport_of_matrix_def)
  have n: "n = (min ((l * k - e) / a) (((l + w) * k - e) / a),
                min (H - (t * k - f) / d) (H - ((t + h) * k - f) / d),
                max ((l * k - e) / a) (((l + w) * k - e) / a),
                max (H - (t * k - f) / d) (H - ((t + h) * k - f) / d))"
    by (simp add: n_def normalized_def Let_def toPdf vw k_def)
  have X: "min ((a * min ((l * k - e) / a) (((l + w) * k - e) / a) + e) * (1 / k))
               ((a * max ((l * k - e) / a) (((l + w) * k - e) / a) + e) * (1 / k)) = l
         \<and> \<bar>(a * max ((l * k - e) / a) (((l + w) * k - e) / a) + e) * (1 / k)
            - (a * min ((l * k - e) / a) (((l + w) * k - e) / a) + e) * (1 / k)\<bar> = w"
    by (rule rescale_pair [OF k pos(3) unflip [OF nz(1)]])
  have Y0: "(d * max ((t * k - f) / d) (((t + h) * k - f) / d) + f = (t + h) * k
             \<and> d * min ((t * k - f) / d) (((t + h) * k - f) / d) + f = t * k)
          \<or> (d * max ((t * k - f) / d) (((t + h) * k - f) / d) + f = t * k
             \<and> d * min ((t * k - f) / d) (((t + h) * k - f) / d) + f = (t + h) * k)"
    using unflip [OF nz(2), of "t * k" f "(t + h) * k"] by blast
  have Y: "min ((d * max ((t * k - f) / d) (((t + h) * k - f) / d) + f) * (1 / k))
               ((d * min ((t * k - f) / d) (((t + h) * k - f) / d) + f) * (1 / k)) = t
         \<and> \<bar>(d * min ((t * k - f) / d) (((t + h) * k - f) / d) + f) * (1 / k)
            - (d * max ((t * k - f) / d) (((t + h) * k - f) / d) + f) * (1 / k)\<bar> = h"
    by (rule rescale_pair [OF k pos(4)]) (use Y0 in blast)
  show ?thesis
    unfolding bboxRect_def selection_of_def Let_def toVp ik n
    by (simp only: mark.simps fst_conv snd_conv flip_min flip_max X Y)
qed

lemma roundtrip_swapped:
  fixes b c e f vw vh cw l t w h H :: real
  assumes nz: "b \<noteq> 0" "c \<noteq> 0" and pos: "0 < vw" "0 < cw" "0 \<le> w" "0 \<le> h"
  defines "vp \<equiv> viewport_of_matrix vw vh (0, b, c, 0, e, f)"
  defines "n \<equiv> normalized vp cw H (l, t, w, h)"
  shows "bboxRect vp (cw / vw) H act (selection_of i fd pg n pw ph)
       = \<lparr> r_left = l, r_top = t, r_width = w, r_height = h, r_field_id = fd, r_active = (fd = act) \<rparr>"
proof -
  define k where "k = vw / cw"
  have k: "0 < k" and ik: "cw / vw = 1 / k" using pos by (simp_all add: k_def)
  have toPdf: "\<And>x y. convertToPdfPoint vp x y = ((y - f) / b, (x - e) / c)"
    using nz by (simp add: vp_def viewport_of_matrix_def inv_swapped)
  have toVp: "\<And>x y. convertToViewportPoint vp x y = (c * y + e, b * x + f)"
    by (simp add: vp_def viewport_of_matrix_def fwd_swapped)
  have vw: "vp_width vp = vw" by (simp add: vp_def viewport_of_matrix_def)
  have n: "n = (min ((t * k - f) / b) (((t + h) * k - f) / b),
                min (H - (l * k - e) / c) (H - ((l + w) * k - e) / c),
                max ((t * k - f) / b) (((t + h) * k - f) / b),
                max (H - (l * k - e) / c) (H - ((l + w) * k - e) / c))"
    by (simp add: n_def normalized_def Let_def toPdf vw k_def)
  have Y: "min ((b * min ((t * k - f) / b) (((t + h) * k - f) / b) + f) * (1 / k))
               ((b * max ((t * k - f) / b) (((t + h) * k - f) / b) + f) * (1 / k)) = t
         \<and> \<bar>(b * max ((t * k - f) / b) (((t + h) * k - f) / b) + f) * (1 / k)
            - (b * min ((t * k - f) / b) (((t + h) * k - f) / b) + f) * (1 / k)\<bar> = h"
    by (rule rescale_pair [OF k pos(4) unflip [OF nz(1)]])
  have X0: "(c * max ((l * k - e) / c) (((l + w) * k - e) / c) + e = (l + w) * k
             \<and> c * min ((l * k - e) / c) (((l + w) * k - e) / c) + e = l * k)
          \<or> (c * max ((l * k - e) / c) (((l + w) * k - e) / c) + e = l * k
             \<and> c * min ((l * k - e) / c) (((l + w) * k - e) / c) + e = (l + w) * k)"
    using unflip [OF nz(2), of "l * k" e "(l + w) * k"] by blast
  have X: "min ((c * max ((l * k - e) / c) (((l + w) * k - e) / c) + e) * (1 / k))
               ((c * min ((l * k - e) / c) (((l + w) * k - e) / c) + e) * (1 / k)) = l
         \<and> \<bar>(c * min ((l * k - e) / c) (((l + w) * k - e) / c) + e) * (1 / k)
            - (c * max ((l * k - e) / c) (((l + w) * k - e) / c) + e) * (1 / k)\<bar> = w"
    by (rule rescale_pair [OF k pos(3)]) (use X0 in blast)
  show ?thesis
    unfolding bboxRect_def selection_of_def Let_def toVp ik n
    by (simp only: mark.simps fst_conv snd_conv flip_min flip_max X Y)
qed

lemma roundtrip_PageViewport:
  fixes l t w h H cw s b0 b1 b2 b3 :: real
  assumes vp: "PageViewport (b0, b1, b2, b3) s rot = Some vp"
      and pos: "0 < s" "b0 < b2" "b1 < b3" "0 < cw" "0 \<le> w" "0 \<le> h"
  shows "bboxRect vp (cw / vp_width vp) H act
           (selection_of i fd pg (normalized vp cw H (l, t, w, h)) pw ph)
       = \<lparr> r_left = l, r_top = t, r_width = w, r_height = h, r_field_id = fd, r_active = (fd = act) \<rparr>"
proof -
  have sn: "s \<noteq> 0" "- s \<noteq> 0" using pos(1) by simp_all
  have wpos: "0 < (b2 - b0) * s" "0 < (b3 - b1) * s" using pos by simp_all
  consider "rot mod 360 = 0" | "rot mod 360 = 90" | "rot mod 360 = 180" | "rot mod 360 = 270"
    | "rot mod 360 \<notin> {0, 90, 180, 270}" by auto
  then show ?thesis
  proof cases
    case 1
    from vp have v: "vp = viewport_of_matrix ((b2 - b0) * s) ((b3 - b1) * s)
       (s, 0, 0, - s, \<bar>(b2 + b0) / 2 - b0\<bar> * s - s * ((b2 + b0) / 2),
        \<bar>(b3 + b1) / 2 - b1\<bar> * s + s * ((b3 + b1) / 2))"
      by (simp add: PageViewport_0 [OF 1])
    have w: "vp_width vp = (b2 - b0) * s" by (simp add: v viewport_of_matrix_def)
    show ?thesis unfolding w unfolding v
      by (rule roundtrip_straight [OF sn(1) sn(2) wpos(1) pos(4) pos(5) pos(6)])
  next
    case 2
    from vp have v: "vp = viewport_of_matrix ((b3 - b1) * s) ((b2 - b0) * s)
       (0, s, s, 0, \<bar>(b3 + b1) / 2 - b1\<bar> * s - s * ((b3 + b1) / 2),
        \<bar>(b2 + b0) / 2 - b0\<bar> * s - s * ((b2 + b0) / 2))"
      by (simp add: PageViewport_90 [OF 2])
    have w: "vp_width vp = (b3 - b1) * s" by (simp add: v viewport_of_matrix_def)
    show ?thesis unfolding w unfolding v
      by (rule roundtrip_swapped [OF sn(1) sn(1) wpos(2) pos(4) pos(5) pos(6)])
  next
    case 3
    from vp have v: "vp = viewport_of_matrix ((b2 - b0) * s) ((b3 - b1) * s)
       (- s, 0, 0, s, \<bar>(b2 + b0) / 2 - b0\<bar> * s + s * ((b2 + b0) / 2),
        \<bar>(b3 + b1) / 2 - b1\<bar> * s - s * ((b3 + b1) / 2))"
      by (simp add: PageViewport_180 [OF 3])
    have w: "vp_width vp = (b2 - b0) * s" by (simp add: v viewport_of_matrix_def)
    show ?thesis unfolding w unfolding v
      by (rule roundtrip_straight [OF sn(2) sn(1) wpos(1) pos(4) pos(5) pos(6)])
  next
    case 4
    from vp have v: "vp = viewport_of_matrix ((b3 - b1) * s) ((b2 - b0) * s)
       (0, - s, - s, 0, \<bar>(b3 + b1) / 2 - b1\<bar> * s + s * ((b3 + b1) / 2),
        \<bar>(b2 + b0) / 2 - b0\<bar> * s + s * ((b2 + b0) / 2))"
      by (simp add: PageViewport_270 [OF 4])
    have w: "vp_width vp = (b3 - b1) * s" by (simp add: v viewport_of_matrix_def)
    show ?thesis unfolding w unfolding v
      by (rule roundtrip_swapped [OF sn(2) sn(2) wpos(2) pos(4) pos(5) pos(6)])
  next
    case 5
    then have "rotate_coeffs (rot mod 360) = None" by (simp add: rotate_coeffs_def)
    with vp show ?thesis by (simp add: PageViewport_def Let_def)
  qed
qed

lemma PageViewport_defined:
  "rot \<in> {0, 90, 180, 270} \<Longrightarrow> \<exists>vp. PageViewport (b0, b1, b2, b3) s rot = Some vp"
  by (auto simp add: PageViewport_def rotate_coeffs_def Let_def)

text \<open>
  C1. For a page shown at rotation 0, 90, 180 or 270 in the viewer's viewport (any page
  box of positive size, any positive scale) on a canvas of positive width, and for every
  screen rectangle \<open>(l, t, w, h)\<close> with non-negative width and height: the rectangle that
  \<open>renderBboxes\<close> draws for the mark stored on drag completion, on a surface of the same
  size, is the drawn rectangle itself. In exact arithmetic the two are equal, hence within
  any tolerance.
\<close>

theorem roundtrip_render_of_normalized:
  fixes l t w h H cw s b0 b1 b2 b3 :: real
  assumes "rot \<in> {0, 90, 180, 270}"
      and "0 < s" "b0 < b2" "b1 < b3" "0 < cw" "0 \<le> w" "0 \<le> h"
  shows "\<exists>vp. PageViewport (b0, b1, b2, b3) s rot = Some vp
           \<and> bboxRect vp (cw / vp_width vp) H act
                (selection_of i fd pg (normalized vp cw H (l, t, w, h)) pw ph)
             = \<lparr> r_left = l, r_top = t, r_width = w, r_height = h,
                 r_field_id = fd, r_active = (fd = act) \<rparr>"
proof -
  from assms(1) obtain vp where vp: "PageViewport (b0, b1, b2, b3) s rot = Some vp"
    using PageViewport_defined by blast
  from roundtrip_PageViewport [OF vp assms(2-7)] vp show ?thesis by blast
qed

theorem roundtrip_render_of_normalized_witness:
  "(90::int) \<in> {0, 90, 180, 270} \<and> (0::real) < 2 \<and> (0::real) < 595 \<and> (0::real) < 842
   \<and> (0::real) < 1684 \<and> (0::real) \<le> 200 \<and> (0::real) \<le> 50
   \<and> (\<exists>vp. PageViewport (0, 0, 595, 842) 2 90 = Some vp
         \<and> bboxRect vp (1684 / vp_width vp) 842 (Some ''title'')
              (selection_of ''m1'' (Some ''title'') 0
                 (normalized vp 1684 842 (100, 100, 200, 50)) 595 842)
           = \<lparr> r_left = 100, r_top = 100, r_width = 200, r_height = 50,
               r_field_id = Some ''title'', r_active = True \<rparr>)"
  using roundtrip_render_of_normalized [of 90 2 0 595 0 842 1684 200 50 842 "Some ''title''"
          "''m1''" "Some ''title''" 0 100 100 595 842]
  by simp

section \<open>What the handlers leave alone\<close>

lemma renderBboxes_keeps:
  "selections (fst (renderBboxes ap w)) = selections w"
  "form_fields (fst (renderBboxes ap w)) = form_fields w"
  "drag (fst (renderBboxes ap w)) = drag w"
  "activeFieldId (fst (renderBboxes ap w)) = activeFieldId w"
  "currentIssn (fst (renderBboxes ap w)) = currentIssn w"
  "toasts (fst (renderBboxes ap w)) = toasts w"
  "console (fst (renderBboxes ap w)) = console w"
  "pdf_app (fst (renderBboxes ap w)) = pdf_app w"
  "templateSuggestions (fst (renderBboxes ap w)) = templateSuggestions w"
  "window (fst (renderBboxes ap w)) = window w"
  "window_toast (fst (renderBboxes ap w)) = window_toast w"
  "template_saves (fst (renderBboxes ap w)) = template_saves w"
  by (simp_all add: renderBboxes_def Let_def split: option.splits prod.splits)

lemma notify_keeps:
  "selections (notify n l w) = selections w"
  "form_fields (notify n l w) = form_fields w"
  "drag (notify n l w) = drag w"
  "activeFieldId (notify n l w) = activeFieldId w"
  "pdf_app (notify n l w) = pdf_app w"
  by (simp_all add: notify_def)

lemma defaultApplyExtractedText_selections:
  "selections (defaultApplyExtractedText fid txt w) = selections w"
  by (simp add: defaultApplyExtractedText_def Let_def split: option.splits)

lemma defaultApplyExtractedText_currentIssn:
  "currentIssn (defaultApplyExtractedText fid txt w) = currentIssn w"
  by (simp add: defaultApplyExtractedText_def Let_def split: option.splits)

lemma saveToTemplate_keeps:
  "selections (saveToTemplate fid cs w) = selections w"
  "form_fields (saveToTemplate fid cs w) = form_fields w"
  by (simp_all add: saveToTemplate_def)

lemma mouseup_settled_selections:
  "selections (mouseup_settled rq resp w) = selections w"
  by (cases resp)
     (simp_all add: mouseup_settled_def Let_def saveToTemplate_keeps
        defaultApplyExtractedText_selections)


section \<open>The mouseup handler of the overlay, case by case\<close>

lemma mouseup_idle: "drag w = None \<Longrightarrow> mouseup i ov e w = (w, None)"
  by (simp add: mouseup_def)

lemma mouseup_small:
  assumes "drag w = Some d"
      and "\<bar>fst (getOverlayPoint ov e) - startX d\<bar> < 4 \<or> \<bar>snd (getOverlayPoint ov e) - startY d\<bar> < 4"
  shows "mouseup i ov e w = (w\<lparr>drag := None\<rparr>, None)"
  using assms by (simp add: mouseup_def Let_def)

lemma mouseup_valid:
  fixes i :: string
  assumes d: "drag w = Some d" and a: "pdf_app w = Some a"
      and pv: "getPageView a (pageIndex ov) = Some pv"
      and vp: "pv_viewport pv = Some vp" and bx: "pdfPage_view pv = Some (r0, r1, r2, r3)"
      and cv: "canvas pv = Some cv"
      and big: "4 \<le> \<bar>fst (getOverlayPoint ov e) - startX d\<bar>"
               "4 \<le> \<bar>snd (getOverlayPoint ov e) - startY d\<bar>"
  defines "sel \<equiv> selection_of i (activeFieldId w) (pageIndex ov)
             (normalized vp (fst cv) (r3 - r1)
               (min (startX d) (fst (getOverlayPoint ov e)),
                min (startY d) (snd (getOverlayPoint ov e)),
                \<bar>fst (getOverlayPoint ov e) - startX d\<bar>,
                \<bar>snd (getOverlayPoint ov e) - startY d\<bar>))
             (r2 - r0) (r3 - r1)"
  defines "rw \<equiv> renderBboxes (Some a) (w\<lparr>drag := None, selections := selections w @ [sel]\<rparr>)"
  shows "mouseup i ov e w =
          (fst rw, if snd rw = Threw then None
                   else Some \<lparr> req_selection = sel, req_options = options_for (activeFieldId w) \<rparr>)"
  using big
  by (simp add: mouseup_def Let_def d a pv vp bx cv sel_def rw_def selection_of_def
        not_less [symmetric])




lemma mouseup_run_selections:
  "selections (mouseup_run i ov e resp w) = selections (fst (mouseup i ov e w))"
  by (cases "mouseup i ov e w")
     (simp add: mouseup_run_def mouseup_settled_selections split: option.splits)



section \<open>The handlers of the stand-alone selector, case by case\<close>

lemma selector_mousedown_starts:
  assumes "currentPageView st = Some pv" "spv_canvas pv = Some cv" "target_in_page ev"
  shows "selector_mousedown ev st
       = st\<lparr>dragStart := Some (getCanvasCoords ev cv), isDragging := True,
            dragRect := Some (fst (getCanvasCoords ev cv), snd (getCanvasCoords ev cv), 0, 0)\<rparr>"
  using assms by (simp add: selector_mousedown_def Let_def)

lemma span_abs: "\<bar>max a b - min a b\<bar> = \<bar>b - (a::real)\<bar>"
  by (simp add: max_def min_def)

lemma selector_mouseup_small:
  assumes "isDragging st" "dragStart st = Some ds" "currentPageView st = Some pv"
      and "spv_canvas pv = Some cv"
      and "\<bar>fst (getCanvasCoords ev cv) - fst ds\<bar> < 8 \<or> \<bar>snd (getCanvasCoords ev cv) - snd ds\<bar> < 8"
  shows "selector_mouseup ev st = st\<lparr>isDragging := False, dragStart := None, dragRect := None\<rparr>"
  using assms by (simp add: selector_mouseup_def Let_def span_abs)

lemma selector_mouseup_no_field:
  assumes "isDragging st" "dragStart st = Some ds" "currentPageView st = Some pv"
      and "spv_canvas pv = Some cv"
      and "8 \<le> \<bar>fst (getCanvasCoords ev cv) - fst ds\<bar>" "8 \<le> \<bar>snd (getCanvasCoords ev cv) - snd ds\<bar>"
      and "\<not> truthy (s_activeFieldId st)"
  shows "selector_mouseup ev st
       = st\<lparr>isDragging := False, dragStart := None, dragRect := None,
            shown_error := Some ChooseBlockFirst\<rparr>"
  using assms
  by (simp add: selector_mouseup_def Let_def span_abs not_less [symmetric] split: prod.splits)

lemma selector_mouseup_valid:
  assumes "isDragging st" "dragStart st = Some ds" "currentPageView st = Some pv"
      and "spv_canvas pv = Some cv" "spv_pageSize pv = (ps0, ps1, ps2, ps3)"
      and "8 \<le> \<bar>fst (getCanvasCoords ev cv) - fst ds\<bar>" "8 \<le> \<bar>snd (getCanvasCoords ev cv) - snd ds\<bar>"
      and "truthy (s_activeFieldId st)"
  shows "s_selections (selector_mouseup ev st) = s_selections st @
           [\<lparr> s_page = currentPage st,
              screen_x1 = min (fst ds) (fst (getCanvasCoords ev cv)),
              screen_y1 = min (snd ds) (snd (getCanvasCoords ev cv)),
              screen_x2 = max (fst ds) (fst (getCanvasCoords ev cv)),
              screen_y2 = max (snd ds) (snd (getCanvasCoords ev cv)),
              s_pdf_x1 = min (min (fst ds) (fst (getCanvasCoords ev cv)) / spv_viewport_width pv * ps2)
                             (max (fst ds) (fst (getCanvasCoords ev cv)) / spv_viewport_width pv * ps2),
              s_pdf_y1 = ps3 - max (snd ds) (snd (getCanvasCoords ev cv)) / spv_viewport_height pv * ps3,
              s_pdf_x2 = max (min (fst ds) (fst (getCanvasCoords ev cv)) / spv_viewport_width pv * ps2)
                             (max (fst ds) (fst (getCanvasCoords ev cv)) / spv_viewport_width pv * ps2),
              s_pdf_y2 = ps3 - min (snd ds) (snd (getCanvasCoords ev cv)) / spv_viewport_height pv * ps3,
              s_field_id = s_activeFieldId st, s_text = [] \<rparr>]"
  using assms
  by (simp add: selector_mouseup_def Let_def span_abs not_less [symmetric])



section \<open>The scenario, evaluated\<close>

lemma scenario_viewport:
  "PageViewport (0, 0, 595, 842) 2 0
     = Some (viewport_of_matrix 1190 1684 (2, 0, 0, - 2, 0, 1684))"
  by (simp add: PageViewport_def rotate_coeffs_def Let_def)

lemma scenario_dragging_eq:
  "scenario_dragging
     = scenario_world\<lparr>drag := Some \<lparr> startX = 100, startY = 100, el = (100, 100, 0, 0) \<rparr>\<rparr>"
  by (simp add: scenario_dragging_def mousedown_def scenario_world_def scenario_overlay_def
        pointer_at_def truthy_def getOverlayPoint_def)

lemma scenario_ready:
  "page_ready scenario_world scenario_overlay"
  "page_ready scenario_dragging scenario_overlay"
  by (simp_all add: scenario_dragging_eq page_ready_def scenario_world_def scenario_overlay_def
        scenario_app_def scenario_pageView_def scenario_viewport)

lemma scenario_active:
  "truthy (activeFieldId scenario_world)"
  "truthy (activeFieldId scenario_dragging)"
  by (simp_all add: scenario_dragging_eq scenario_world_def truthy_def)


lemma selector_at_coords: "getCanvasCoords (selector_at 100 100) scenario_canvas = (100, 100)"
  "getCanvasCoords (selector_at 103 104) scenario_canvas = (103, 104)"
  "getCanvasCoords (selector_at 104 104) scenario_canvas = (104, 104)"
  "getCanvasCoords (selector_at 108 108) scenario_canvas = (108, 108)"
  "getCanvasCoords (selector_at 300 150) scenario_canvas = (300, 150)"
  by (simp_all add: getCanvasCoords_def clampValue_def selector_at_def scenario_canvas_def)

lemma scenario_selector_view:
  "currentPageView scenario_selector
     = Some \<lparr> spv_pageSize = (0, 0, 595, 842), spv_viewport_width = 1190,
              spv_viewport_height = 1684, spv_canvas = Some scenario_canvas \<rparr>"
  by (simp add: scenario_selector_def)

lemma scenario_selector_dragging_eq:
  "scenario_selector_dragging
     = scenario_selector\<lparr>dragStart := Some (100, 100), isDragging := True,
                          dragRect := Some (100, 100, 0, 0)\<rparr>"
  by (simp add: scenario_selector_dragging_def selector_mousedown_def scenario_selector_def
        selector_at_def getCanvasCoords_def clampValue_def scenario_canvas_def)

lemma scenario_selector_dragging_facts:
  "selector_ready scenario_selector_dragging"
  "isDragging scenario_selector_dragging"
  "dragStart scenario_selector_dragging = Some (100, 100)"
  "truthy (s_activeFieldId scenario_selector_dragging)"
  "currentPageView scenario_selector_dragging
     = Some \<lparr> spv_pageSize = (0, 0, 595, 842), spv_viewport_width = 1190,
              spv_viewport_height = 1684, spv_canvas = Some scenario_canvas \<rparr>"
  "s_selections scenario_selector_dragging = []"
  "currentPage scenario_selector_dragging = 0"
  "s_activeFieldId scenario_selector_dragging = Some ''title''"
  by (simp_all add: scenario_selector_dragging_eq selector_ready_def scenario_selector_def truthy_def)

lemma scenario_points:
  "getOverlayPoint scenario_overlay (pointer_at x y) = (x, y)"
  "drag scenario_dragging = Some \<lparr> startX = 100, startY = 100, el = (100, 100, 0, 0) \<rparr>"
  "selections scenario_dragging = []"
  by (simp_all add: getOverlayPoint_def scenario_overlay_def pointer_at_def scenario_dragging_eq
        scenario_world_def)

section \<open>The minimum size of a drag\<close>

lemma page_ready_obtain:
  assumes "page_ready w ov"
  obtains a pv vp r0 r1 r2 r3 cv where "pdf_app w = Some a" "getPageView a (pageIndex ov) = Some pv"
    "pv_viewport pv = Some vp" "pdfPage_view pv = Some (r0, r1, r2, r3)" "canvas pv = Some cv"
    "fst cv \<noteq> 0"
proof -
  from assms obtain a pv vp bx cv where f: "pdf_app w = Some a" "getPageView a (pageIndex ov) = Some pv"
    "pv_viewport pv = Some vp" "pdfPage_view pv = Some bx" "canvas pv = Some cv" "fst cv \<noteq> 0"
    by (auto simp add: page_ready_def split: option.splits)
  obtain r0 r1 r2 r3 where "bx = (r0, r1, r2, r3)" by (cases bx) auto
  with f that show thesis by blast
qed

lemma mouseup_valid_selections:
  assumes "page_ready w ov" "drag w = Some d"
      and "4 \<le> \<bar>fst (getOverlayPoint ov e) - startX d\<bar>"
          "4 \<le> \<bar>snd (getOverlayPoint ov e) - startY d\<bar>"
  shows "\<exists>m. selections (fst (mouseup i ov e w)) = selections w @ [m]
             \<and> field_id m = activeFieldId w \<and> page m = pageIndex ov"
proof -
  from assms(1) obtain a pv vp r0 r1 r2 r3 cv where f: "pdf_app w = Some a"
    "getPageView a (pageIndex ov) = Some pv" "pv_viewport pv = Some vp"
    "pdfPage_view pv = Some (r0, r1, r2, r3)" "canvas pv = Some cv"
    by (rule page_ready_obtain)
  show ?thesis
    unfolding mouseup_valid [OF assms(2) f assms(3,4)]
    by (simp add: renderBboxes_keeps selection_of_def)
qed

text \<open>
  C4 (as the code has it). In the overlay of pdf-bbox.js the threshold is 4 pixels: a
  completed drag narrower or lower than 4 stores nothing, one of at least 4 by 4 stores
  exactly one mark. In the stand-alone selector the threshold is 8 pixels: a drag
  narrower or lower than 8 stores nothing, one of at least 8 by 8 (with a field active)
  stores exactly one selection. A drag of exactly 3 stores nothing in both.
\<close>

theorem minimum_drag_size:
  assumes "page_ready w ov" "drag w = Some d"
      and "selector_ready st" "isDragging st" "dragStart st = Some ds"
      and "truthy (s_activeFieldId st)"
      and "currentPageView st = Some pv" "spv_canvas pv = Some cv"
  shows "(\<bar>fst (getOverlayPoint ov e) - startX d\<bar> < 4 \<or> \<bar>snd (getOverlayPoint ov e) - startY d\<bar> < 4
            \<longrightarrow> selections (mouseup_run i ov e resp w) = selections w)
       \<and> (4 \<le> \<bar>fst (getOverlayPoint ov e) - startX d\<bar> \<and> 4 \<le> \<bar>snd (getOverlayPoint ov e) - startY d\<bar>
            \<longrightarrow> (\<exists>m. selections (mouseup_run i ov e resp w) = selections w @ [m]))
       \<and> (\<bar>fst (getCanvasCoords ev cv) - fst ds\<bar> < 8 \<or> \<bar>snd (getCanvasCoords ev cv) - snd ds\<bar> < 8
            \<longrightarrow> s_selections (selector_mouseup ev st) = s_selections st)
       \<and> (8 \<le> \<bar>fst (getCanvasCoords ev cv) - fst ds\<bar> \<and> 8 \<le> \<bar>snd (getCanvasCoords ev cv) - snd ds\<bar>
            \<longrightarrow> (\<exists>m. s_selections (selector_mouseup ev st) = s_selections st @ [m]))"
proof (intro conjI impI)
  assume "\<bar>fst (getOverlayPoint ov e) - startX d\<bar> < 4 \<or> \<bar>snd (getOverlayPoint ov e) - startY d\<bar> < 4"
  then show "selections (mouseup_run i ov e resp w) = selections w"
    by (simp add: mouseup_run_selections mouseup_small [OF assms(2)])
next
  assume "4 \<le> \<bar>fst (getOverlayPoint ov e) - startX d\<bar> \<and> 4 \<le> \<bar>snd (getOverlayPoint ov e) - startY d\<bar>"
  then show "\<exists>m. selections (mouseup_run i ov e resp w) = selections w @ [m]"
    using mouseup_valid_selections [OF assms(1,2), of e i]
    by (auto simp add: mouseup_run_selections)
next
  assume "\<bar>fst (getCanvasCoords ev cv) - fst ds\<bar> < 8 \<or> \<bar>snd (getCanvasCoords ev cv) - snd ds\<bar> < 8"
  then show "s_selections (selector_mouseup ev st) = s_selections st"
    by (simp add: selector_mouseup_small [OF assms(4,5,7,8)])
next
  obtain ps0 ps1 ps2 ps3 where sz: "spv_pageSize pv = (ps0, ps1, ps2, ps3)"
    by (cases "spv_pageSize pv") auto
  assume "8 \<le> \<bar>fst (getCanvasCoords ev cv) - fst ds\<bar> \<and> 8 \<le> \<bar>snd (getCanvasCoords ev cv) - snd ds\<bar>"
  then show "\<exists>m. s_selections (selector_mouseup ev st) = s_selections st @ [m]"
    by (simp add: selector_mouseup_valid [OF assms(4,5,7,8) sz _ _ assms(6)])
qed

theorem minimum_drag_size_witness:
  "page_ready scenario_dragging scenario_overlay
   \<and> drag scenario_dragging = Some \<lparr> startX = 100, startY = 100, el = (100, 100, 0, 0) \<rparr>
   \<and> selector_ready scenario_selector_dragging \<and> isDragging scenario_selector_dragging
   \<and> dragStart scenario_selector_dragging = Some (100, 100)
   \<and> truthy (s_activeFieldId scenario_selector_dragging)
   \<and> selections (mouseup_run ''m1'' scenario_overlay (pointer_at 103 104) FetchFailed scenario_dragging) = []
   \<and> (\<exists>m. selections (mouseup_run ''m1'' scenario_overlay (pointer_at 104 104) FetchFailed
               scenario_dragging) = [m])
   \<and> s_selections (selector_mouseup (selector_at 103 104) scenario_selector_dragging) = []
   \<and> s_selections (selector_mouseup (selector_at 104 104) scenario_selector_dragging) = []
   \<and> (\<exists>m. s_selections (selector_mouseup (selector_at 108 108) scenario_selector_dragging) = [m])"
proof -
  note h = scenario_ready(2) scenario_points(2) scenario_selector_dragging_facts(1-5)
  have cv: "spv_canvas \<lparr> spv_pageSize = (0, 0, 595, 842), spv_viewport_width = 1190,
              spv_viewport_height = 1684, spv_canvas = Some scenario_canvas \<rparr> = Some scenario_canvas"
    by simp
  note T = minimum_drag_size [OF h cv]
  have 1: "selections (mouseup_run ''m1'' scenario_overlay (pointer_at 103 104) FetchFailed scenario_dragging) = []"
    using T [where e = "pointer_at 103 104" and i = "''m1''" and resp = FetchFailed]
    by (simp add: scenario_points)
  have 2: "\<exists>m. selections (mouseup_run ''m1'' scenario_overlay (pointer_at 104 104) FetchFailed
               scenario_dragging) = [m]"
    using T [where e = "pointer_at 104 104" and i = "''m1''" and resp = FetchFailed]
    by (simp add: scenario_points)
  have 3: "s_selections (selector_mouseup (selector_at 103 104) scenario_selector_dragging) = []"
    using T [where ev = "selector_at 103 104"]
    by (simp add: selector_at_coords scenario_selector_dragging_facts)
  have 4: "s_selections (selector_mouseup (selector_at 104 104) scenario_selector_dragging) = []"
    using T [where ev = "selector_at 104 104"]
    by (simp add: selector_at_coords scenario_selector_dragging_facts)
  have 5: "\<exists>m. s_selections (selector_mouseup (selector_at 108 108) scenario_selector_dragging) = [m]"
    using T [where ev = "selector_at 108 108"]
    by (simp add: selector_at_coords scenario_selector_dragging_facts)
  from h(1-6) 1 2 3 4 5 show ?thesis by blast
qed

text \<open>
  C4 as stated fails in the stand-alone selector: with a field active, a drag from
  (100, 100) to (104, 104), 4 pixels wide and 4 high, stores nothing.
\<close>

theorem selector_four_pixel_drag_counterexample:
  "s_activeFieldId scenario_selector_dragging = Some ''title''
   \<and> dragStart scenario_selector_dragging = Some (100, 100)
   \<and> getCanvasCoords (selector_at 104 104) scenario_canvas = (104, 104)
   \<and> s_selections (selector_mouseup (selector_at 104 104) scenario_selector_dragging) = []"
proof -
  have cv: "spv_canvas \<lparr> spv_pageSize = (0, 0, 595, 842), spv_viewport_width = 1190,
              spv_viewport_height = 1684, spv_canvas = Some scenario_canvas \<rparr> = Some scenario_canvas"
    by simp
  have "selector_mouseup (selector_at 104 104) scenario_selector_dragging
          = scenario_selector_dragging\<lparr>isDragging := False, dragStart := None, dragRect := None\<rparr>"
    by (rule selector_mouseup_small [OF scenario_selector_dragging_facts(2,3,5) cv])
       (simp add: selector_at_coords)
  then show ?thesis
    by (simp add: scenario_selector_dragging_facts selector_at_coords)
qed

section \<open>The scenario's stored rectangle\<close>

lemma normalized_rotation0:
  fixes s W H l t wd ht :: real
  assumes "0 < s" "0 < W" "0 < H" "0 \<le> wd" "0 \<le> ht"
  shows "\<exists>vp. PageViewport (0, 0, W, H) s 0 = Some vp
           \<and> normalized vp (W * s) H (l, t, wd, ht) = (l / s, t / s, (l + wd) / s, (t + ht) / s)"
proof -
  let ?vp = "viewport_of_matrix (W * s) (H * s) (s, 0, 0, - s, 0, H * s)"
  have vp: "PageViewport (0, 0, W, H) s 0 = Some ?vp"
    using assms by (simp add: PageViewport_0 field_simps)
  have sn: "s \<noteq> 0" "- s \<noteq> 0" using assms(1) by simp_all
  have toPdf: "\<And>x y. convertToPdfPoint ?vp x y = (x / s, (y - H * s) / (- s))"
    by (simp add: viewport_of_matrix_def inv_straight [OF sn])
  have one: "vp_width ?vp / (W * s) = 1" using assms by (simp add: viewport_of_matrix_def)
  have fx: "\<And>x y. fst (convertToPdfPoint ?vp x y) = x / s"
    and sy: "\<And>x y. H - snd (convertToPdfPoint ?vp x y) = y / s"
    using assms(1) by (simp_all add: toPdf field_simps)
  have ox: "l / s \<le> (l + wd) / s" "t / s \<le> (t + ht) / s"
    using assms by (simp_all add: divide_right_mono)
  have "normalized ?vp (W * s) H (l, t, wd, ht) = (l / s, t / s, (l + wd) / s, (t + ht) / s)"
    unfolding normalized_def Let_def prod.case one fx sy
    using ox by (simp add: min_def max_def)
  with vp show ?thesis by blast
qed

lemma scenario_selector_up:
  "s_selections (selector_mouseup (selector_at 300 150) scenario_selector_dragging)
     = [\<lparr> s_page = 0, screen_x1 = 100, screen_y1 = 100, screen_x2 = 300, screen_y2 = 150,
          s_pdf_x1 = 50, s_pdf_y1 = 767, s_pdf_x2 = 150, s_pdf_y2 = 792,
          s_field_id = Some ''title'', s_text = [] \<rparr>]"
proof -
  have cv: "spv_canvas \<lparr> spv_pageSize = (0, 0, 595, 842), spv_viewport_width = 1190,
              spv_viewport_height = 1684, spv_canvas = Some scenario_canvas \<rparr> = Some scenario_canvas"
    and sz: "spv_pageSize \<lparr> spv_pageSize = (0, 0, 595, 842), spv_viewport_width = 1190,
              spv_viewport_height = 1684, spv_canvas = Some scenario_canvas \<rparr> = (0, 0, 595, 842)"
    by simp_all
  show ?thesis
    by (subst selector_mouseup_valid [OF scenario_selector_dragging_facts(2,3,5) cv sz])
       (simp_all add: selector_at_coords scenario_selector_dragging_facts truthy_def)
qed

text \<open>
  C2 (as the code has it). In the stand-alone selector the scenario stores the rectangle
  with \<open>x\<close> from 50 to 150, \<open>y1 = 767\<close> and \<open>y2 = 792\<close>, measured from the bottom of
  the page. In pdf-bbox.js, for a page box \<open>(0, 0, W, H)\<close> shown at rotation 0 and scale
  \<open>s\<close> on a canvas as wide as the viewport, the stored rectangle is the screen rectangle
  divided by the scale: the handler subtracts the viewer's bottom-up Y from the page
  height, so the stored Y is measured from the top of the page. For the scenario that is
  width 100, height 25, \<open>y1 = 50\<close> and \<open>y2 = 75\<close>.
\<close>

theorem scenario_stored_rectangle:
  fixes s W H l t wd ht :: real
  assumes "0 < s" "0 < W" "0 < H" "0 \<le> wd" "0 \<le> ht"
  shows "(\<exists>vp. PageViewport (0, 0, W, H) s 0 = Some vp
            \<and> normalized vp (W * s) H (l, t, wd, ht) = (l / s, t / s, (l + wd) / s, (t + ht) / s))
       \<and> s_selections (selector_mouseup (selector_at 300 150) scenario_selector_dragging)
           = [\<lparr> s_page = 0, screen_x1 = 100, screen_y1 = 100, screen_x2 = 300, screen_y2 = 150,
                s_pdf_x1 = 50, s_pdf_y1 = 767, s_pdf_x2 = 150, s_pdf_y2 = 792,
                s_field_id = Some ''title'', s_text = [] \<rparr>]"
  using normalized_rotation0 [OF assms] scenario_selector_up by blast

theorem scenario_stored_rectangle_witness:
  "(0::real) < 2 \<and> (0::real) < 595 \<and> (0::real) < 842 \<and> (0::real) \<le> 200 \<and> (0::real) \<le> 50
   \<and> (\<exists>vp. PageViewport (0, 0, 595, 842) 2 0 = Some vp
          \<and> normalized vp 1190 842 (100, 100, 200, 50) = (50, 50, 150, 75))"
  using scenario_stored_rectangle [of 2 595 842 200 50 100 100] by simp

text \<open>
  C2 as stated fails in pdf-bbox.js: in the scenario the drag from (100, 100) to
  (300, 150) stores one mark, 100 wide and 25 high, with \<open>y1 = 50\<close> and \<open>y2 = 75\<close>,
  not 767 and 792.
\<close>

theorem scenario_overlay_counterexample:
  "selections (fst (mouseup ''m1'' scenario_overlay (pointer_at 300 150)
       (mousedown scenario_overlay (pointer_at 100 100) scenario_world)))
     = [selection_of ''m1'' (Some ''title'') 0 (50, 50, 150, 75) 595 842]
   \<and> pdf_y1 (selection_of ''m1'' (Some ''title'') 0 (50, 50, 150, 75) 595 842) = 50
   \<and> pdf_y2 (selection_of ''m1'' (Some ''title'') 0 (50, 50, 150, 75) 595 842) = 75
   \<and> (50::real) \<noteq> 767 \<and> (75::real) \<noteq> 792"
proof -
  have n: "normalized (viewport_of_matrix 1190 1684 (2, 0, 0, - 2, 0, 1684)) 1190 842
             (100, 100, 200, 50) = (50, 50, 150, 75)"
    by (simp add: normalized_def viewport_of_matrix_def applyInverseTransform_def Let_def)
  have a: "pdf_app scenario_dragging = Some scenario_app"
    and pv: "getPageView scenario_app (pageIndex scenario_overlay) = Some scenario_pageView"
    and vp: "pv_viewport scenario_pageView = Some (viewport_of_matrix 1190 1684 (2, 0, 0, - 2, 0, 1684))"
    and bx: "pdfPage_view scenario_pageView = Some (0, 0, 595, 842)"
    and cv: "canvas scenario_pageView = Some (1190, 1684)"
    and fd: "activeFieldId scenario_dragging = Some ''title''"
    and pg: "pageIndex scenario_overlay = 0"
    by (simp_all add: scenario_dragging_eq scenario_world_def scenario_app_def scenario_overlay_def
          scenario_pageView_def scenario_viewport)
  have "selections (fst (mouseup ''m1'' scenario_overlay (pointer_at 300 150) scenario_dragging))
          = [selection_of ''m1'' (Some ''title'') 0 (50, 50, 150, 75) 595 842]"
    by (subst mouseup_valid [OF scenario_points(2) a pv vp bx cv])
       (simp_all add: scenario_points renderBboxes_keeps fd n pg)
  then show ?thesis
    by (simp add: scenario_dragging_def selection_of_def)
qed

section \<open>A pointer going down with no active field\<close>

lemma mousedown_no_field:
  assumes "\<not> truthy (activeFieldId w)" "button e = 0"
  shows "mousedown ov e w = notify SelectFieldFirst Info w"
  using assms by (simp add: mousedown_def)

lemma mousemove_idle: "drag w = None \<Longrightarrow> mousemove ov e w = w"
  by (simp add: mousemove_def)

text \<open>
  C5 (as the code has it). In the overlay of pdf-bbox.js a primary-button pointer-down
  with no active field, while idle, starts no drag: the only effect is the notice ``select
  a field first'' (a toast when the page provides \<open>window.toast\<close>, a console message
  otherwise); the drag stays empty, and the moves and the pointer-up that follow change
  nothing and send nothing, so no mark results. In the stand-alone selector the
  pointer-down starts the drag whatever the active field and shows no notice; the check
  is made at pointer-up: with still no active field nothing is stored, and the notice is
  shown then, when the drag is at least 8 by 8 pixels.
\<close>

theorem pointer_down_without_field:
  assumes "\<not> truthy (activeFieldId w)" "button e = 0" "drag w = None"
      and "currentPageView st = Some pv" "spv_canvas pv = Some cv" "target_in_page ev"
      and "\<not> truthy (s_activeFieldId st)"
  shows "mousedown ov e w = notify SelectFieldFirst Info w
       \<and> drag (mousedown ov e w) = None
       \<and> selections (mousedown ov e w) = selections w
       \<and> (if window_toast w then toasts (mousedown ov e w) = toasts w @ [(SelectFieldFirst, Info)]
          else console (mousedown ov e w) = console w @ [(SelectFieldFirst, Info)])
       \<and> mousemove ov e' (mousedown ov e w) = mousedown ov e w
       \<and> mouseup i ov e'' (mousedown ov e w) = (mousedown ov e w, None)
       \<and> isDragging (selector_mousedown ev st)
       \<and> dragStart (selector_mousedown ev st) = Some (getCanvasCoords ev cv)
       \<and> shown_error (selector_mousedown ev st) = shown_error st
       \<and> s_selections (selector_mouseup ev' (selector_mousedown ev st)) = s_selections st
       \<and> (8 \<le> \<bar>fst (getCanvasCoords ev' cv) - fst (getCanvasCoords ev cv)\<bar>
          \<and> 8 \<le> \<bar>snd (getCanvasCoords ev' cv) - snd (getCanvasCoords ev cv)\<bar>
          \<longrightarrow> shown_error (selector_mouseup ev' (selector_mousedown ev st)) = Some ChooseBlockFirst)"
proof -
  let ?w = "mousedown ov e w" and ?st = "selector_mousedown ev st"
  have m: "?w = notify SelectFieldFirst Info w" by (rule mousedown_no_field [OF assms(1,2)])
  have d: "drag ?w = None" by (simp add: m notify_keeps assms(3))
  have st: "?st = st\<lparr>dragStart := Some (getCanvasCoords ev cv), isDragging := True,
            dragRect := Some (fst (getCanvasCoords ev cv), snd (getCanvasCoords ev cv), 0, 0)\<rparr>"
    by (rule selector_mousedown_starts [OF assms(4,5,6)])
  have f: "isDragging ?st" "dragStart ?st = Some (getCanvasCoords ev cv)"
    "currentPageView ?st = Some pv" "\<not> truthy (s_activeFieldId ?st)"
    "s_selections ?st = s_selections st" "shown_error ?st = shown_error st"
    by (simp_all add: st assms)
  have up: "s_selections (selector_mouseup ev' ?st) = s_selections st"
  proof (cases "\<bar>fst (getCanvasCoords ev' cv) - fst (getCanvasCoords ev cv)\<bar> < 8
              \<or> \<bar>snd (getCanvasCoords ev' cv) - snd (getCanvasCoords ev cv)\<bar> < 8")
    case True
    then show ?thesis
      by (simp add: selector_mouseup_small [OF f(1,2,3) assms(5)] f(5))
  next
    case False
    then show ?thesis
      by (simp add: selector_mouseup_no_field [OF f(1,2,3) assms(5) _ _ f(4)] f(5))
  qed
  have er: "8 \<le> \<bar>fst (getCanvasCoords ev' cv) - fst (getCanvasCoords ev cv)\<bar>
          \<and> 8 \<le> \<bar>snd (getCanvasCoords ev' cv) - snd (getCanvasCoords ev cv)\<bar>
          \<longrightarrow> shown_error (selector_mouseup ev' ?st) = Some ChooseBlockFirst"
    by (simp add: selector_mouseup_no_field [OF f(1,2,3) assms(5) _ _ f(4)])
  have n: "if window_toast w then toasts ?w = toasts w @ [(SelectFieldFirst, Info)]
          else console ?w = console w @ [(SelectFieldFirst, Info)]"
    by (simp add: m notify_def)
  have mm: "mousemove ov e' ?w = ?w" by (rule mousemove_idle [OF d])
  have mu: "mouseup i ov e'' ?w = (?w, None)" by (rule mouseup_idle [OF d])
  have sel: "selections ?w = selections w" by (simp add: m notify_keeps)
  show ?thesis
    by (intro conjI) (fact m d sel n mm mu f(1) f(2) f(6) up er)+
qed

theorem pointer_down_without_field_witness:
  "\<not> truthy (activeFieldId scenario_no_field) \<and> button (pointer_at 100 100) = 0
   \<and> drag scenario_no_field = None
   \<and> target_in_page (selector_at 100 100)
   \<and> \<not> truthy (s_activeFieldId scenario_selector_no_field)
   \<and> drag (mousedown scenario_overlay (pointer_at 100 100) scenario_no_field) = None
   \<and> toasts (mousedown scenario_overlay (pointer_at 100 100) scenario_no_field)
        = [(SelectFieldFirst, Info)]
   \<and> mouseup ''m1'' scenario_overlay (pointer_at 300 150)
        (mousedown scenario_overlay (pointer_at 100 100) scenario_no_field)
      = (mousedown scenario_overlay (pointer_at 100 100) scenario_no_field, None)
   \<and> isDragging (selector_mousedown (selector_at 100 100) scenario_selector_no_field)
   \<and> s_selections (selector_mouseup (selector_at 300 150)
        (selector_mousedown (selector_at 100 100) scenario_selector_no_field)) = []
   \<and> shown_error (selector_mouseup (selector_at 300 150)
        (selector_mousedown (selector_at 100 100) scenario_selector_no_field))
      = Some ChooseBlockFirst"
proof -
  have h: "\<not> truthy (activeFieldId scenario_no_field)" "button (pointer_at 100 100) = 0"
    "drag scenario_no_field = None"
    "currentPageView scenario_selector_no_field
       = Some \<lparr> spv_pageSize = (0, 0, 595, 842), spv_viewport_width = 1190,
                spv_viewport_height = 1684, spv_canvas = Some scenario_canvas \<rparr>"
    "spv_canvas \<lparr> spv_pageSize = (0, 0, 595, 842), spv_viewport_width = 1190,
                spv_viewport_height = 1684, spv_canvas = Some scenario_canvas \<rparr> = Some scenario_canvas"
    "target_in_page (selector_at 100 100)"
    "\<not> truthy (s_activeFieldId scenario_selector_no_field)"
    by (simp_all add: scenario_no_field_def scenario_selector_no_field_def scenario_world_def
          scenario_selector_def truthy_def pointer_at_def selector_at_def)
  have w: "window_toast scenario_no_field" "toasts scenario_no_field = []"
    "s_selections scenario_selector_no_field = []"
    by (simp_all add: scenario_no_field_def scenario_world_def scenario_selector_no_field_def
          scenario_selector_def)
  from pointer_down_without_field [OF h, where ov = scenario_overlay and i = "''m1''"
         and e' = "pointer_at 200 120" and e'' = "pointer_at 300 150"
         and ev' = "selector_at 300 150", THEN conjunct2]
  show ?thesis using h(1,2,3,6,7) w by (simp add: selector_at_coords)
qed

text \<open>
  C5 as stated fails in the stand-alone selector: with no field active the pointer-down
  starts the drag and shows no notice.
\<close>

theorem selector_starts_drag_without_field_counterexample:
  "\<not> truthy (s_activeFieldId scenario_selector_no_field)
   \<and> isDragging (selector_mousedown (selector_at 100 100) scenario_selector_no_field)
   \<and> dragStart (selector_mousedown (selector_at 100 100) scenario_selector_no_field)
       = Some (100, 100)
   \<and> shown_error (selector_mousedown (selector_at 100 100) scenario_selector_no_field) = None"
  by (simp add: selector_mousedown_def scenario_selector_no_field_def scenario_selector_def
        selector_at_def getCanvasCoords_def clampValue_def scenario_canvas_def truthy_def)

section \<open>Applying a template suggestion\<close>

lemma applySuggestion_selections:
  assumes "templateSuggestions w fieldId = Some sg" "pdf_app w = Some a"
  shows "selections (fst (applySuggestion i fieldId w))
       = filter (\<lambda>s. field_id s \<noteq> Some fieldId) (selections w) @
           [\<lparr> schema = ''pdfbbox-v2'', mark_id = i, field_id = Some fieldId,
              page = c_page (sug_coords sg),
              pdf_x1 = c_pdf_x1 (sug_coords sg), pdf_y1 = c_pdf_y1 (sug_coords sg),
              pdf_x2 = c_pdf_x2 (sug_coords sg), pdf_y2 = c_pdf_y2 (sug_coords sg),
              page_width = c_page_width (sug_coords sg), page_height = c_page_height (sug_coords sg),
              from_template = Some True, confidence = Some (sug_confidence sg) \<rparr>]"
  using assms by (simp add: applySuggestion_def Let_def renderBboxes_keeps)

lemma applySuggestion_settled_selections:
  "selections (applySuggestion_settled fieldId c resp w) = selections w"
  by (cases resp)
     (simp_all add: applySuggestion_settled_def notify_keeps defaultApplyExtractedText_selections)

lemma applySuggestion_run_selections:
  "selections (applySuggestion_run i fieldId resp w) = selections (fst (applySuggestion i fieldId w))"
  by (cases "applySuggestion i fieldId w")
     (simp add: applySuggestion_run_def applySuggestion_settled_selections split: option.splits)

lemma filter_twice_neq: "filter (\<lambda>s. f s = v) (filter (\<lambda>s. f s \<noteq> v) xs) = []"
  by (induction xs) simp_all

lemma filter_twice_same: "filter P (filter P xs) = filter P xs"
  by simp

lemma applySuggestion_no_viewer:
  assumes "templateSuggestions w fieldId = Some sg" "pdf_app w = None"
  shows "applySuggestion_run i fieldId resp w = w"
  using assms by (simp add: applySuggestion_run_def applySuggestion_def)

text \<open>
  C7 (as the code has it). With a suggestion available for the field: when the viewer
  application is present, after \<open>applySuggestion\<close> has run, whatever the extraction
  request came back with, the store holds exactly one mark of that field, flagged
  \<open>from_template\<close> and carrying the suggestion's confidence, and the marks of the other
  fields are what they were, in the same order; when the viewer application is absent
  the call returns at once and changes nothing.
\<close>

theorem applySuggestion_single_mark:
  assumes "templateSuggestions w fieldId = Some sg"
  shows "(pdf_app w \<noteq> None \<longrightarrow>
            (\<exists>m. filter (\<lambda>s. field_id s = Some fieldId)
                    (selections (applySuggestion_run i fieldId resp w)) = [m]
                \<and> from_template m = Some True \<and> confidence m = Some (sug_confidence sg))
            \<and> filter (\<lambda>s. field_id s \<noteq> Some fieldId) (selections (applySuggestion_run i fieldId resp w))
                = filter (\<lambda>s. field_id s \<noteq> Some fieldId) (selections w))
       \<and> (pdf_app w = None \<longrightarrow> applySuggestion_run i fieldId resp w = w)"
proof (intro conjI impI)
  assume "pdf_app w \<noteq> None"
  then obtain a where a: "pdf_app w = Some a" by auto
  show "\<exists>m. filter (\<lambda>s. field_id s = Some fieldId)
                    (selections (applySuggestion_run i fieldId resp w)) = [m]
                \<and> from_template m = Some True \<and> confidence m = Some (sug_confidence sg)"
    unfolding applySuggestion_run_selections applySuggestion_selections [OF assms a]
    by (simp add: filter_twice_neq)
  show "filter (\<lambda>s. field_id s \<noteq> Some fieldId) (selections (applySuggestion_run i fieldId resp w))
                = filter (\<lambda>s. field_id s \<noteq> Some fieldId) (selections w)"
    unfolding applySuggestion_run_selections applySuggestion_selections [OF assms a]
    by simp
next
  assume "pdf_app w = None"
  then show "applySuggestion_run i fieldId resp w = w"
    by (rule applySuggestion_no_viewer [OF assms])
qed

lemma scenario_with_template_facts:
  "templateSuggestions scenario_with_template ''title'' = Some scenario_suggestion"
  "pdf_app scenario_with_template = Some scenario_app"
  "selections scenario_with_template
     = [selection_of ''a'' (Some ''title'') 0 (10, 10, 20, 20) 595 842,
        selection_of ''b'' (Some ''doi'') 0 (30, 30, 40, 40) 595 842]"
  "templateSuggestions scenario_no_viewer ''title'' = Some scenario_suggestion"
  "pdf_app scenario_no_viewer = None"
  "selections scenario_no_viewer
     = [selection_of ''a'' (Some ''title'') 0 (10, 10, 20, 20) 595 842,
        selection_of ''b'' (Some ''doi'') 0 (30, 30, 40, 40) 595 842]"
  by (simp_all add: scenario_no_viewer_def scenario_with_template_def scenario_world_def)

theorem applySuggestion_single_mark_witness:
  "templateSuggestions scenario_with_template ''title'' = Some scenario_suggestion
   \<and> pdf_app scenario_with_template = Some scenario_app
   \<and> (\<exists>m. filter (\<lambda>s. field_id s = Some ''title'')
              (selections (applySuggestion_run ''t1'' ''title'' FetchFailed scenario_with_template)) = [m]
          \<and> from_template m = Some True \<and> confidence m = Some (4 / 5))
   \<and> filter (\<lambda>s. field_id s \<noteq> Some ''title'')
        (selections (applySuggestion_run ''t1'' ''title'' FetchFailed scenario_with_template))
      = [selection_of ''b'' (Some ''doi'') 0 (30, 30, 40, 40) 595 842]
   \<and> templateSuggestions scenario_no_viewer ''title'' = Some scenario_suggestion
   \<and> pdf_app scenario_no_viewer = None
   \<and> applySuggestion_run ''t1'' ''title'' FetchFailed scenario_no_viewer = scenario_no_viewer"
proof -
  note h = scenario_with_template_facts
  have c: "sug_confidence scenario_suggestion = 4 / 5" by (simp add: scenario_suggestion_def)
  have f: "field_id (selection_of ''a'' (Some ''title'') 0 (10, 10, 20, 20) 595 842) = Some ''title''"
    "field_id (selection_of ''b'' (Some ''doi'') 0 (30, 30, 40, 40) 595 842) = Some ''doi''"
    by (simp_all add: selection_of_def)
  from applySuggestion_single_mark [OF h(1), where i = "''t1''" and resp = FetchFailed]
       applySuggestion_single_mark [OF h(4), where i = "''t1''" and resp = FetchFailed]
  show ?thesis using h(1,2,4,5) by (simp add: h(3) c f)
qed

text \<open>
  C7 as stated fails when the viewer application is absent: the suggestion for \<open>title\<close>
  is available, the call returns, and the store is what it was; its one mark for
  \<open>title\<close> is the hand-drawn one, with no \<open>from_template\<close> flag and no confidence.
\<close>

theorem applySuggestion_without_viewer_counterexample:
  "templateSuggestions scenario_no_viewer ''title'' = Some scenario_suggestion
   \<and> selections (applySuggestion_run ''t1'' ''title'' FetchFailed scenario_no_viewer)
       = [selection_of ''a'' (Some ''title'') 0 (10, 10, 20, 20) 595 842,
          selection_of ''b'' (Some ''doi'') 0 (30, 30, 40, 40) 595 842]
   \<and> from_template (selection_of ''a'' (Some ''title'') 0 (10, 10, 20, 20) 595 842) = None
   \<and> confidence (selection_of ''a'' (Some ''title'') 0 (10, 10, 20, 20) 595 842) = None"
  by (simp add: applySuggestion_no_viewer [OF scenario_with_template_facts(4,5)]
        scenario_with_template_facts selection_of_def)

section \<open>Canonical marks\<close>








section \<open>A failed extraction keeps the mark\<close>









section \<open>Appending extracted text\<close>

lemma js_trim_examples:
  "js_trim (js ''alpha '') = js ''alpha''" "js_trim (js ''alpha'') = js ''alpha''"
  "js_trim (js '' '') = []" "js_trim (js '' beta '') = js ''beta''"
  "js_trim [0xA0, 0x2028] = []"
  by (simp_all add: js_def js_trim_def is_ws_def)

text \<open>
  C10. When \<open>defaultApplyExtractedText\<close> is given a non-empty field id and a non-empty
  text and the field's element exists: if the field holds non-blank text, its new value
  is that text trimmed, then the separator of the field's class (a line feed for
  \<open>references_ru\<close> and \<open>references_en\<close>, a comma and a space for \<open>keywords\<close> and
  \<open>keywords_en\<close>, one space for every other field), then the processed text; if the
  field is empty or blank, its new value is the processed text alone. No other field
  changes.
\<close>

theorem extracted_text_appended_after_separator:
  assumes "fid \<noteq> []" "txt \<noteq> []" "form_fields w fid = Some v"
  shows "form_fields (defaultApplyExtractedText (Some fid) txt w) fid
           = Some (if js_trim v \<noteq> [] then
                     js_trim v
                     @ (if fid = ''references_ru'' \<or> fid = ''references_en'' then [0x0A]
                        else if fid = ''keywords'' \<or> fid = ''keywords_en'' then js '', ''
                        else js '' '')
                     @ processed_value (window w) fid txt
                   else processed_value (window w) fid txt)
       \<and> (\<forall>g. g \<noteq> fid \<longrightarrow>
             form_fields (defaultApplyExtractedText (Some fid) txt w) g = form_fields w g)"
  using assms by (simp add: defaultApplyExtractedText_def separator_def Let_def)

theorem extracted_text_appended_after_separator_witness:
  "form_fields scenario_filled ''keywords'' = Some (js ''alpha '')
   \<and> form_fields scenario_filled ''references_ru'' = Some (js ''alpha'')
   \<and> form_fields scenario_filled ''doi'' = Some (js ''alpha'')
   \<and> form_fields scenario_filled ''title'' = Some (js '' '')
   \<and> form_fields scenario_filled ''udc'' = Some [0xA0, 0x2028]
   \<and> form_fields (defaultApplyExtractedText (Some ''keywords'') (js '' beta '') scenario_filled)
        ''keywords'' = Some (js ''alpha, beta'')
   \<and> form_fields (defaultApplyExtractedText (Some ''references_ru'') (js '' beta '') scenario_filled)
        ''references_ru'' = Some (js ''alpha'' @ [0x0A] @ js ''beta'')
   \<and> form_fields (defaultApplyExtractedText (Some ''doi'') (js '' beta '') scenario_filled) ''doi''
        = Some (js ''alpha beta'')
   \<and> form_fields (defaultApplyExtractedText (Some ''title'') (js '' beta '') scenario_filled) ''title''
        = Some (js ''beta'')
   \<and> form_fields (defaultApplyExtractedText (Some ''udc'') (js '' beta '') scenario_filled) ''udc''
        = Some (js ''beta'')"
proof -
  have f: "form_fields scenario_filled ''keywords'' = Some (js ''alpha '')"
    "form_fields scenario_filled ''references_ru'' = Some (js ''alpha'')"
    "form_fields scenario_filled ''doi'' = Some (js ''alpha'')"
    "form_fields scenario_filled ''title'' = Some (js '' '')"
    "form_fields scenario_filled ''udc'' = Some [0xA0, 0x2028]"
    by (simp_all add: scenario_filled_def)
  have p: "\<And>fid. processed_value (window scenario_filled) fid (js '' beta '') = js ''beta''"
    by (simp add: processed_value_def scenario_filled_def scenario_world_def js_trim_examples Let_def)
  have ne: "''keywords'' \<noteq> []" "''references_ru'' \<noteq> []" "''doi'' \<noteq> []" "''title'' \<noteq> []"
    "''udc'' \<noteq> []" "js '' beta '' \<noteq> []" by (simp_all add: js_def)
  have cat: "js ''alpha'' @ js '', '' @ js ''beta'' = js ''alpha, beta''"
    "js ''alpha'' @ js '' '' @ js ''beta'' = js ''alpha beta''"
    by (simp_all add: js_def)
  have nz: "js ''alpha'' \<noteq> []" by (simp add: js_def)
  note T = extracted_text_appended_after_separator [THEN conjunct1]
  have 1: "form_fields (defaultApplyExtractedText (Some ''keywords'') (js '' beta '') scenario_filled)
        ''keywords'' = Some (js ''alpha, beta'')"
    unfolding T [OF ne(1) ne(6) f(1)] by (simp add: p js_trim_examples cat nz)
  have 2: "form_fields (defaultApplyExtractedText (Some ''references_ru'') (js '' beta '') scenario_filled)
        ''references_ru'' = Some (js ''alpha'' @ [0x0A] @ js ''beta'')"
    unfolding T [OF ne(2) ne(6) f(2)] by (simp add: p js_trim_examples nz)
  have 3: "form_fields (defaultApplyExtractedText (Some ''doi'') (js '' beta '') scenario_filled) ''doi''
        = Some (js ''alpha beta'')"
    unfolding T [OF ne(3) ne(6) f(3)] by (simp add: p js_trim_examples cat nz)
  have 4: "form_fields (defaultApplyExtractedText (Some ''title'') (js '' beta '') scenario_filled) ''title''
        = Some (js ''beta'')"
    unfolding T [OF ne(4) ne(6) f(4)] by (simp add: p js_trim_examples)
  have 5: "form_fields (defaultApplyExtractedText (Some ''udc'') (js '' beta '') scenario_filled) ''udc''
        = Some (js ''beta'')"
    unfolding T [OF ne(5) ne(6) f(5)] by (simp add: p js_trim_examples)
  from f 1 2 3 4 5 show ?thesis by blast
qed

end
